theory Spec2Isabelle
  imports Main "HOL-Library.Log_Nat"
begin

section \<open>Python values\<close>

subsection \<open>Floats\<close>

text \<open>
  A finite Python float is the rational number it denotes. The result of an arithmetic
  operation is the exact result rounded to the nearest number with a 53-bit significand,
  a tie going to the even significand (IEEE 754 binary64, the default rounding). Below
  \<open>2 ^ - 1022\<close> the spacing stays \<open>2 ^ - 1074\<close> (subnormal numbers). Infinities and NaN are
  not values of the model: it covers computations whose results stay finite.
\<close>

type_synonym pyfloat = rat

definition pow2 :: "int \<Rightarrow> rat" where
  "pow2 n = (if 0 \<le> n then 2 ^ nat n else 1 / 2 ^ nat (- n))"

text \<open>\<open>ilog2 x\<close> is the binary exponent of a positive \<open>x\<close>: \<open>2 ^ ilog2 x \<le> x < 2 ^ (ilog2 x + 1)\<close>.\<close>

definition ilog2 :: "rat \<Rightarrow> int" where
  "ilog2 x = (case quotient_of x of (p, q) \<Rightarrow>
     (let d = bitlen p - bitlen q in if pow2 d \<le> x then d else d - 1))"

text \<open>
  Python's \<open>round(x)\<close> with one argument returns an \<open>int\<close> and rounds a half to the even
  neighbour: \<open>round(2.5) == 2\<close>, \<open>round(3.5) == 4\<close>.
\<close>

definition py_round :: "rat \<Rightarrow> int" where
  "py_round x = (let f = \<lfloor>x\<rfloor>; d = x - of_int f in
     if d < 1 / 2 then f else if 1 / 2 < d then f + 1 else if even f then f else f + 1)"

definition binary64 :: "rat \<Rightarrow> pyfloat" where
  "binary64 x = (if x = 0 then 0 else
     (let u = pow2 (max (ilog2 \<bar>x\<bar> - 52) (- 1074)) in of_int (py_round (x / u)) * u))"

definition float_of_int :: "int \<Rightarrow> pyfloat" where
  "float_of_int n = binary64 (of_int n)"

definition fadd :: "pyfloat \<Rightarrow> pyfloat \<Rightarrow> pyfloat" where
  "fadd a b = binary64 (a + b)"

definition fsub :: "pyfloat \<Rightarrow> pyfloat \<Rightarrow> pyfloat" where
  "fsub a b = binary64 (a - b)"

definition fmul :: "pyfloat \<Rightarrow> pyfloat \<Rightarrow> pyfloat" where
  "fmul a b = binary64 (a * b)"

subsection \<open>Exceptions\<close>

datatype option_kind = CALL | PUT | NO_KIND

text \<open>
  \<open>NO_KIND\<close> stands for any value of \<open>option_kind\<close> other than \<open>OptionKind.CALL\<close> and
  \<open>OptionKind.PUT\<close>, such as the \<open>None\<close> of an instrument that is not an option.

  The exceptions the program can raise. \<open>Exception k\<close> is the
  \<open>raise Exception("Got unexpected value for option_kind argument ...")\<close> of
  \<open>calculate_option_delta\<close>, whose message quotes the kind it received.
\<close>

datatype error =
    ZeroDivisionError
  | UnboundLocalError
  | KeyError
  | AttributeError
  | IndexError
  | Exception option_kind

definition fdiv :: "pyfloat \<Rightarrow> pyfloat \<Rightarrow> error + pyfloat" where
  "fdiv a b = (if b = 0 then Inl ZeroDivisionError else Inr (binary64 (a / b)))"

text \<open>
  \<open>a % b\<close> on floats (CPython's \<open>float_rem\<close>): the C function \<open>fmod\<close>, which is exact and
  has the sign of \<open>a\<close>, then one addition of \<open>b\<close> when the signs of the remainder and of
  \<open>b\<close> differ.
\<close>

definition c_fmod :: "rat \<Rightarrow> rat \<Rightarrow> rat" where
  "c_fmod a b = a - of_int (if 0 \<le> a / b then \<lfloor>a / b\<rfloor> else \<lceil>a / b\<rceil>) * b"

definition fmod :: "pyfloat \<Rightarrow> pyfloat \<Rightarrow> error + pyfloat" where
  "fmod a b = (if b = 0 then Inl ZeroDivisionError
     else (let m = c_fmod a b in
       if m \<noteq> 0 \<and> ((b < 0) \<noteq> (m < 0)) then Inr (fadd m b) else Inr m))"

section \<open>Tick rounding\<close>

text \<open>
  \<^verbatim>\<open>return floor(price / tick_size) * tick_size\<close> and
  \<^verbatim>\<open>return ceil(price / tick_size) * tick_size\<close>: \<open>math.floor\<close> and \<open>math.ceil\<close> return an
  \<open>int\<close>, which the multiplication converts back to a float.
\<close>

definition round_down_to_tick :: "pyfloat \<Rightarrow> pyfloat \<Rightarrow> error + pyfloat" where
  "round_down_to_tick p tick_size =
     (case fdiv p tick_size of
        Inl e \<Rightarrow> Inl e
      | Inr q \<Rightarrow> Inr (fmul (float_of_int \<lfloor>q\<rfloor>) tick_size))"

definition round_up_to_tick :: "pyfloat \<Rightarrow> pyfloat \<Rightarrow> error + pyfloat" where
  "round_up_to_tick p tick_size =
     (case fdiv p tick_size of
        Inl e \<Rightarrow> Inl e
      | Inr q \<Rightarrow> Inr (fmul (float_of_int \<lceil>q\<rceil>) tick_size))"

section \<open>Option valuation\<close>

text \<open>
  The modules \<open>black_scholes\<close> and \<open>libs\<close>, and the builtin \<open>pow\<close>, are not part of the
  program: their functions are parameters. The four Black-Scholes functions take
  \<open>S\<close>, \<open>K\<close>, \<open>T\<close>, \<open>r\<close> and \<open>sigma\<close> in this order. A date is a day number.
\<close>

type_synonym date = int

record externals =
  call_value :: "pyfloat \<Rightarrow> pyfloat \<Rightarrow> pyfloat \<Rightarrow> pyfloat \<Rightarrow> pyfloat \<Rightarrow> pyfloat"
  put_value :: "pyfloat \<Rightarrow> pyfloat \<Rightarrow> pyfloat \<Rightarrow> pyfloat \<Rightarrow> pyfloat \<Rightarrow> pyfloat"
  call_delta :: "pyfloat \<Rightarrow> pyfloat \<Rightarrow> pyfloat \<Rightarrow> pyfloat \<Rightarrow> pyfloat \<Rightarrow> pyfloat"
  put_delta :: "pyfloat \<Rightarrow> pyfloat \<Rightarrow> pyfloat \<Rightarrow> pyfloat \<Rightarrow> pyfloat \<Rightarrow> pyfloat"
  calculate_current_time_to_date :: "date \<Rightarrow> pyfloat"
  pow :: "pyfloat \<Rightarrow> pyfloat \<Rightarrow> pyfloat"
  math_e :: pyfloat

text \<open>
  \<open>calculate_theoretical_option_value\<close> has no \<open>else\<close> branch: for a kind that is neither
  \<open>CALL\<close> nor \<open>PUT\<close> the local \<open>option_value\<close> is never assigned, and \<open>return option_value\<close>
  raises \<open>UnboundLocalError\<close>.
\<close>

definition calculate_theoretical_option_value ::
  "externals \<Rightarrow> date \<Rightarrow> pyfloat \<Rightarrow> option_kind \<Rightarrow> pyfloat \<Rightarrow> pyfloat \<Rightarrow> pyfloat \<Rightarrow> error + pyfloat"
where
  "calculate_theoretical_option_value ext expiry_date k kind stock_value interest_rate volatility =
     (let time_to_expiry = calculate_current_time_to_date ext expiry_date in
      if kind = CALL then
        Inr (call_value ext stock_value k time_to_expiry interest_rate volatility)
      else if kind = PUT then
        Inr (put_value ext stock_value k time_to_expiry interest_rate volatility)
      else Inl UnboundLocalError)"

definition calculate_option_delta ::
  "externals \<Rightarrow> date \<Rightarrow> pyfloat \<Rightarrow> option_kind \<Rightarrow> pyfloat \<Rightarrow> pyfloat \<Rightarrow> pyfloat \<Rightarrow> error + pyfloat"
where
  "calculate_option_delta ext expiry_date k kind stock_value interest_rate volatility =
     (let time_to_expiry = calculate_current_time_to_date ext expiry_date in
      if kind = CALL then
        Inr (call_delta ext stock_value k time_to_expiry interest_rate volatility)
      else if kind = PUT then
        Inr (put_delta ext stock_value k time_to_expiry interest_rate volatility)
      else Inl (Exception kind))"

section \<open>Exchange data\<close>

text \<open>
  The records of the exchange client. A level of a price book, a trade tick and an
  outstanding order all have a price and a volume; sides are the strings \<open>"bid"\<close> and
  \<open>"ask"\<close>. A timestamp is a number of microseconds, the resolution of \<open>datetime\<close>, so that
  the difference of two timestamps is an integer as a \<open>timedelta\<close> is.
\<close>

record price_volume =
  price :: pyfloat
  volume :: int

record trade_tick = price_volume +
  timestamp :: int
  aggressor_side :: string

record order_status = price_volume +
  order_id :: int
  side :: string

record price_book =
  bids :: "price_volume list"
  asks :: "price_volume list"

type_synonym positions = "string \<rightharpoonup> int"

text \<open>
  The calls that change the exchange:
  \<open>delete_order(instrument_id, order_id)\<close>,
  \<open>insert_order(instrument_id, price, volume, side, order_type)\<close> and
  \<open>amend_order(instrument_id, order_id, volume)\<close>, where the order id of an amendment is
  the \<open>ask_order_id\<close> or \<open>bid_order_id\<close> of the reconciliation, which starts as \<open>None\<close>.
\<close>

datatype exchange_call =
    Delete_order string int
  | Insert_order string pyfloat int string string
  | Amend_order string "int option" int

section \<open>Order reconciliation\<close>

text \<open>
  The first loop of \<open>operational_optimazation\<close>: the price of the last ask order and of the
  last order that is not an ask. A variable the loop never assigns stays unbound (\<open>None\<close>).
\<close>

fun existing_prices ::
  "order_status list \<Rightarrow> pyfloat option \<Rightarrow> pyfloat option \<Rightarrow> pyfloat option \<times> pyfloat option"
where
  "existing_prices [] existing_ask_price existing_bid_price =
     (existing_ask_price, existing_bid_price)"
| "existing_prices (order # rest) existing_ask_price existing_bid_price =
     (if side order = ''ask'' then existing_prices rest (Some (price order)) existing_bid_price
      else existing_prices rest existing_ask_price (Some (price order)))"

text \<open>
  The second loop, over the same orders. Its state is
  \<open>(update_ask_price, update_bid_price, ask_order_id, bid_order_id, update_ask_volume,
  update_bid_volume)\<close>.
\<close>

type_synonym update_flags = "bool \<times> bool \<times> int option \<times> int option \<times> bool \<times> bool"

fun compare_orders ::
  "order_status list \<Rightarrow> pyfloat \<Rightarrow> pyfloat \<Rightarrow> int \<Rightarrow> int \<Rightarrow> update_flags \<Rightarrow> update_flags"
where
  "compare_orders [] new_bid_price new_ask_price optimal_ask_volume optimal_bid_volume st = st"
| "compare_orders (order # rest) new_bid_price new_ask_price optimal_ask_volume optimal_bid_volume
     (update_ask_price, update_bid_price, ask_order_id, bid_order_id,
      update_ask_volume, update_bid_volume) =
     (let (update_ask_price, ask_order_id, update_ask_volume) =
            (if side order = ''ask'' then
               (if price order = new_ask_price then False else update_ask_price,
                Some (order_id order),
                if volume order = optimal_ask_volume then False else update_ask_volume)
             else (update_ask_price, ask_order_id, update_ask_volume));
          (update_bid_price, bid_order_id, update_bid_volume) =
            (if side order = ''bid'' then
               (if price order = new_bid_price then False else update_bid_price,
                Some (order_id order),
                if volume order = optimal_bid_volume then False else update_bid_volume)
             else (update_bid_price, bid_order_id, update_bid_volume))
      in compare_orders rest new_bid_price new_ask_price optimal_ask_volume optimal_bid_volume
           (update_ask_price, update_bid_price, ask_order_id, bid_order_id,
            update_ask_volume, update_bid_volume))"

text \<open>
  The check against a self-trade, which reads \<open>existing_bid_price\<close> or \<open>existing_ask_price\<close>
  and so raises \<open>UnboundLocalError\<close> if the first loop has not assigned it.
\<close>

definition self_trade_check ::
  "pyfloat option \<Rightarrow> pyfloat option \<Rightarrow> pyfloat \<Rightarrow> pyfloat \<Rightarrow> bool \<Rightarrow> bool \<Rightarrow> error + bool \<times> bool"
where
  "self_trade_check existing_ask_price existing_bid_price new_bid_price new_ask_price
     update_ask_price update_bid_price =
     (if update_ask_price \<and> update_bid_price = False then
        (case existing_bid_price of
           None \<Rightarrow> Inl UnboundLocalError
         | Some b \<Rightarrow> Inr (if new_ask_price = b then False else update_ask_price, update_bid_price))
      else if update_bid_price \<and> update_ask_price = False then
        (case existing_ask_price of
           None \<Rightarrow> Inl UnboundLocalError
         | Some a \<Rightarrow> Inr (update_ask_price, if new_bid_price = a then False else update_bid_price))
      else Inr (update_ask_price, update_bid_price))"

text \<open>
  \<open>operational_optimazation\<close> reads the positions once, between the two loops. It returns
  the list \<open>[optimal_ask_volume, optimal_bid_volume, update_ask_price, update_bid_price,
  ask_order_id, bid_order_id, update_ask_volume, update_bid_volume, positions]\<close>, here a
  tuple.
\<close>

type_synonym arguments =
  "int \<times> int \<times> bool \<times> bool \<times> int option \<times> int option \<times> bool \<times> bool \<times> positions"

definition operational_optimazation ::
  "positions \<Rightarrow> string \<Rightarrow> order_status list \<Rightarrow> int \<Rightarrow> pyfloat \<Rightarrow> pyfloat \<Rightarrow> error + arguments"
where
  "operational_optimazation positions iid outstanding_orders suggested_volume
     new_bid_price new_ask_price =
     (case existing_prices outstanding_orders None None of
        (existing_ask_price, existing_bid_price) \<Rightarrow>
     (case positions iid of
        None \<Rightarrow> Inl KeyError
      | Some inventory_instrument_id \<Rightarrow>
     (let optimal_ask_volume =
            (if 0 < inventory_instrument_id then suggested_volume + inventory_instrument_id
             else suggested_volume);
          optimal_bid_volume =
            (if 0 < inventory_instrument_id then suggested_volume
             else if inventory_instrument_id < 0
               then suggested_volume + \<bar>inventory_instrument_id\<bar>
             else suggested_volume)
      in
     (case compare_orders outstanding_orders new_bid_price new_ask_price
             optimal_ask_volume optimal_bid_volume (True, True, None, None, True, True) of
        (update_ask_price, update_bid_price, ask_order_id, bid_order_id,
         update_ask_volume, update_bid_volume) \<Rightarrow>
     (case self_trade_check existing_ask_price existing_bid_price new_bid_price new_ask_price
             update_ask_price update_bid_price of
        Inl e \<Rightarrow> Inl e
      | Inr (update_ask_price, update_bid_price) \<Rightarrow>
          Inr (optimal_ask_volume, optimal_bid_volume, update_ask_price, update_bid_price,
               ask_order_id, bid_order_id, update_ask_volume, update_bid_volume,
               positions))))))"

section \<open>Quote submission\<close>

text \<open>
  The loop of \<open>update_quotes\<close> over \<open>exchange.get_outstanding_orders(instrument_id).items()\<close>,
  which deletes under its dictionary key each order whose price is to change.
\<close>

fun pull_orders ::
  "string \<Rightarrow> (int \<times> order_status) list \<Rightarrow> bool \<Rightarrow> int option \<Rightarrow> bool \<Rightarrow> int option
   \<Rightarrow> exchange_call list"
where
  "pull_orders iid [] update_ask_price outstanding_ask_id update_bid_price outstanding_bid_id = []"
| "pull_orders iid ((key, order) # rest) update_ask_price outstanding_ask_id
     update_bid_price outstanding_bid_id =
     (if (update_ask_price \<and> Some (order_id order) = outstanding_ask_id)
         \<or> (update_bid_price \<and> Some (order_id order) = outstanding_bid_id)
      then Delete_order iid key
             # pull_orders iid rest update_ask_price outstanding_ask_id
                 update_bid_price outstanding_bid_id
      else pull_orders iid rest update_ask_price outstanding_ask_id
             update_bid_price outstanding_bid_id)"

text \<open>
  \<open>update_quotes\<close> returns the calls it has made, in order, and how it ended: the
  deletions are made before anything that can raise. Its first two arguments are what
  \<open>exchange.get_outstanding_orders(instrument_id)\<close> and \<open>exchange.get_positions()\<close> return.
\<close>

definition update_quotes ::
  "(int \<times> order_status) list \<Rightarrow> positions \<Rightarrow> string \<Rightarrow> pyfloat \<Rightarrow> pyfloat \<Rightarrow> int \<Rightarrow> int \<Rightarrow> int
   \<Rightarrow> pyfloat \<Rightarrow> bool \<Rightarrow> int option \<Rightarrow> bool \<Rightarrow> int option \<Rightarrow> bool \<Rightarrow> bool
   \<Rightarrow> exchange_call list \<times> (error + unit)"
where
  "update_quotes orders positions iid theoretical_price credit optimal_ask_volume
     optimal_bid_volume position_limit tick_size update_ask_price ask_order_id
     update_bid_price bid_order_id update_ask_volume update_bid_volume =
     (let outstanding_ask_id = ask_order_id;
          outstanding_bid_id = bid_order_id;
          deleted = pull_orders iid orders update_ask_price outstanding_ask_id
                      update_bid_price outstanding_bid_id
      in
     (case round_down_to_tick (fsub theoretical_price credit) tick_size of
        Inl e \<Rightarrow> (deleted, Inl e)
      | Inr bid_price \<Rightarrow>
     (case round_up_to_tick (fadd theoretical_price credit) tick_size of
        Inl e \<Rightarrow> (deleted, Inl e)
      | Inr ask_price \<Rightarrow>
     (case positions iid of
        None \<Rightarrow> (deleted, Inl KeyError)
      | Some position \<Rightarrow>
     (let max_volume_to_buy = position_limit - position;
          max_volume_to_sell = position_limit + position;
          bid_volume = min optimal_bid_volume max_volume_to_buy;
          ask_volume = min optimal_ask_volume max_volume_to_sell
      in (deleted
          @ (if 0 < bid_volume \<and> update_bid_price then
               [Insert_order iid bid_price bid_volume ''bid'' ''limit'']
             else if 0 < bid_volume \<and> \<not> update_bid_price \<and> update_bid_volume then
               [Amend_order iid outstanding_bid_id bid_volume]
             else [])
          @ (if 0 < ask_volume \<and> update_ask_price then
               [Insert_order iid ask_price ask_volume ''ask'' ''limit'']
             else if 0 < ask_volume \<and> \<not> update_ask_price \<and> update_ask_volume then
               [Amend_order iid outstanding_ask_id ask_volume]
             else []),
          Inr ()))))))"

section \<open>Instruments\<close>

datatype instrument_type = STOCK | STOCK_OPTION | STOCK_FUTURE | OTHER_TYPE

record instrument =
  instrument_id :: string
  instrument_type :: instrument_type
  base_instrument_id :: string
  expiry :: date
  strike :: pyfloat
  option_kind :: option_kind

section \<open>Delta hedging\<close>

text \<open>
  The loop over \<open>options.items()\<close> in the \<open>"NVDA"\<close> branch of \<open>hedge_delta_position\<close>. Each
  iteration calls \<open>exchange.get_positions()\<close>: \<open>positions_feed n\<close> is what call number
  \<open>n\<close> returns. The loop hands on the aggregate and the local \<open>positions\<close>, which is unbound
  (\<open>None\<close>) until the first iteration. The literals \<open>0.03\<close> and \<open>3.0\<close> are the floats
  \<open>binary64 (3 / 100)\<close> and \<open>3\<close>.
\<close>

fun options_loop ::
  "externals \<Rightarrow> (nat \<Rightarrow> positions) \<Rightarrow> pyfloat \<Rightarrow> (string \<times> instrument) list \<Rightarrow> nat \<Rightarrow> pyfloat
   \<Rightarrow> positions option \<Rightarrow> error + pyfloat \<times> positions option"
where
  "options_loop ext positions_feed stock_value [] n aggregate_position_delta bound =
     Inr (aggregate_position_delta, bound)"
| "options_loop ext positions_feed stock_value ((option_id, opt) # rest) n
     aggregate_position_delta bound =
     (let positions = positions_feed n in
      case calculate_option_delta ext (expiry opt) (strike opt) (option_kind opt)
             stock_value (binary64 (3 / 100)) 3 of
        Inl e \<Rightarrow> Inl e
      | Inr options_delta \<Rightarrow>
          (case positions option_id of
             None \<Rightarrow> Inl KeyError
           | Some p \<Rightarrow>
               options_loop ext positions_feed stock_value rest (Suc n)
                 (fadd aggregate_position_delta (fmul options_delta (float_of_int p)))
                 (Some positions)))"

text \<open>The loop over \<open>futures.items()\<close>, which reads \<open>positions[future_id]\<close>.\<close>

fun futures_loop ::
  "positions option \<Rightarrow> (string \<times> instrument) list \<Rightarrow> pyfloat \<Rightarrow> error + pyfloat"
where
  "futures_loop bound [] aggregate_position_delta = Inr aggregate_position_delta"
| "futures_loop bound ((future_id, future) # rest) aggregate_position_delta =
     (case bound of
        None \<Rightarrow> Inl UnboundLocalError
      | Some positions \<Rightarrow>
          (case positions future_id of
             None \<Rightarrow> Inl KeyError
           | Some p \<Rightarrow> futures_loop bound rest (fadd aggregate_position_delta (float_of_int p))))"

text \<open>
  The aggregate delta of the \<open>"NVDA"\<close> branch, with the stock position it also returns for
  the sizing of the hedge.
\<close>

definition nvda_aggregate ::
  "externals \<Rightarrow> (nat \<Rightarrow> positions) \<Rightarrow> string \<Rightarrow> (string \<times> instrument) list
   \<Rightarrow> (string \<times> instrument) list \<Rightarrow> pyfloat \<Rightarrow> error + pyfloat \<times> int"
where
  "nvda_aggregate ext positions_feed stock_id options futures stock_value =
     (case options_loop ext positions_feed stock_value options 0 0 None of
        Inl e \<Rightarrow> Inl e
      | Inr (aggregate_position_delta, bound) \<Rightarrow>
     (case futures_loop bound futures aggregate_position_delta of
        Inl e \<Rightarrow> Inl e
      | Inr aggregate_position_delta \<Rightarrow>
     (case bound of
        None \<Rightarrow> Inl UnboundLocalError
      | Some positions \<Rightarrow>
     (case positions stock_id of
        None \<Rightarrow> Inl KeyError
      | Some stock_position \<Rightarrow>
     (case positions ''NVDA_DUAL'' of
        None \<Rightarrow> Inl KeyError
      | Some stock_dual_position \<Rightarrow>
          Inr (fadd (fadd aggregate_position_delta (float_of_int stock_position))
                 (float_of_int stock_dual_position),
               stock_position))))))"

text \<open>
  \<^verbatim>\<open>while underlying_order_book.bids == [] or underlying_order_book.asks == []:\<close>
  \<^verbatim>\<open>    underlying_order_book = exchange.get_last_price_book(...)\<close>
  where \<open>book_feed n\<close> is what call number \<open>n\<close> of \<open>get_last_price_book\<close> returns: a price
  book, or \<open>None\<close>, which has no attribute \<open>bids\<close>. The loop has no bound: the value \<open>None\<close>
  of \<open>wait_for_book\<close> is a loop that never ends.
\<close>

partial_function (option) wait_for_book ::
  "(nat \<Rightarrow> price_book option) \<Rightarrow> nat \<Rightarrow> (error + price_book) option"
where
  "wait_for_book book_feed n =
     (case book_feed n of
        None \<Rightarrow> Some (Inl AttributeError)
      | Some underlying_order_book \<Rightarrow>
          if bids underlying_order_book = [] \<or> asks underlying_order_book = []
          then wait_for_book book_feed (Suc n)
          else Some (Inr underlying_order_book))"

text \<open>
  The sizing and the order of the hedge, the same in both branches but for the instrument
  and the threshold (35 for \<open>"NVDA"\<close>, 1 for \<open>"SAN"\<close>). The aggregate of the \<open>"SAN"\<close> branch
  is an \<open>int\<close>, passed here as the rational it is: \<open>round\<close> leaves it unchanged.
\<close>

definition hedge_order ::
  "string \<Rightarrow> int \<Rightarrow> rat \<Rightarrow> int \<Rightarrow> price_book \<Rightarrow> error + exchange_call list"
where
  "hedge_order iid threshold aggregate_position_delta stock_position underlying_order_book =
     (let max_volume_to_buy = 100 - stock_position;
          max_volume_to_sell = 100 + stock_position;
          bid_volume = min \<bar>py_round aggregate_position_delta\<bar> max_volume_to_buy;
          ask_volume = min \<bar>py_round aggregate_position_delta\<bar> max_volume_to_sell
      in
      if of_int threshold < aggregate_position_delta \<and> 0 < ask_volume then
        (case bids underlying_order_book of
           [] \<Rightarrow> Inl IndexError
         | best # _ \<Rightarrow> Inr [Insert_order iid (price best) ask_volume ''ask'' ''ioc''])
      else if aggregate_position_delta < - of_int threshold \<and> 0 < bid_volume then
        (case asks underlying_order_book of
           [] \<Rightarrow> Inl IndexError
         | best # _ \<Rightarrow> Inr [Insert_order iid (price best) bid_volume ''bid'' ''ioc''])
      else Inr [])"

text \<open>
  \<open>hedge_delta_position\<close> returns the calls it has made, or the exception it has raised;
  \<open>None\<close> when it never returns. With any other \<open>stock_id\<close> it does nothing.
\<close>

definition hedge_delta_position ::
  "externals \<Rightarrow> (nat \<Rightarrow> positions) \<Rightarrow> (nat \<Rightarrow> price_book option) \<Rightarrow> string
   \<Rightarrow> (string \<times> instrument) list \<Rightarrow> (string \<times> instrument) list \<Rightarrow> pyfloat
   \<Rightarrow> (error + exchange_call list) option"
where
  "hedge_delta_position ext positions_feed book_feed stock_id options futures stock_value =
     (if stock_id = ''NVDA'' then
        (case nvda_aggregate ext positions_feed stock_id options futures stock_value of
           Inl e \<Rightarrow> Some (Inl e)
         | Inr (aggregate_position_delta, stock_position) \<Rightarrow>
             (case wait_for_book book_feed 0 of
                None \<Rightarrow> None
              | Some (Inl e) \<Rightarrow> Some (Inl e)
              | Some (Inr underlying_order_book) \<Rightarrow>
                  Some (hedge_order ''NVDA'' 35 aggregate_position_delta stock_position
                          underlying_order_book)))
      else if stock_id = ''SAN'' then
        (let positions = positions_feed 0 in
         case positions stock_id of
           None \<Rightarrow> Some (Inl KeyError)
         | Some stock_position \<Rightarrow>
        (case positions ''SAN_DUAL'' of
           None \<Rightarrow> Some (Inl KeyError)
         | Some stock_dual_position \<Rightarrow>
        (let aggregate_position_delta = 0 + stock_position + stock_dual_position in
         case wait_for_book book_feed 0 of
           None \<Rightarrow> None
         | Some (Inl e) \<Rightarrow> Some (Inl e)
         | Some (Inr underlying_order_book) \<Rightarrow>
             Some (hedge_order ''SAN'' 1 (of_int aggregate_position_delta) stock_position
                     underlying_order_book))))
      else Some (Inr []))"

section \<open>Deviation estimation\<close>

text \<open>
  The inner loop of \<open>get_quantified_data\<close> over \<open>data_underlying\<close>. Its state is \<open>None\<close> while
  \<open>first_loop\<close> is true and \<open>(minimum, traded_price_underlying)\<close> afterwards. The first
  iteration stores an absolute difference; a later one that finds a smaller absolute
  difference stores the signed difference, \<^verbatim>\<open>minimum = timestamp_instrument - line.timestamp\<close>.
\<close>

fun match_underlying ::
  "int \<Rightarrow> trade_tick list \<Rightarrow> (int \<times> pyfloat) option \<Rightarrow> (int \<times> pyfloat) option"
where
  "match_underlying timestamp_instrument [] st = st"
| "match_underlying timestamp_instrument (line # rest) None =
     match_underlying timestamp_instrument rest
       (Some (\<bar>timestamp_instrument - timestamp line\<bar>, price line))"
| "match_underlying timestamp_instrument (line # rest)
     (Some (minimum, traded_price_underlying)) =
     (if \<bar>timestamp_instrument - timestamp line\<bar> < minimum then
        match_underlying timestamp_instrument rest
          (Some (timestamp_instrument - timestamp line, price line))
      else
        match_underlying timestamp_instrument rest (Some (minimum, traded_price_underlying)))"

text \<open>
  The match as the specification words it, for comparison: the first underlying trade
  among those whose timestamp has the smallest absolute difference from the timestamp of
  the instrument's trade.
\<close>

definition spec_nearest_trade :: "int \<Rightarrow> trade_tick list \<Rightarrow> trade_tick option" where
  "spec_nearest_trade timestamp_instrument data_underlying =
     List.find
       (\<lambda>u. list_all (\<lambda>v. \<bar>timestamp_instrument - timestamp u\<bar>
                            \<le> \<bar>timestamp_instrument - timestamp v\<bar>) data_underlying)
       data_underlying"

text \<open>
  For the proofs: the loop as it would be with the absolute difference stored at every
  move, and the test of \<open>spec_nearest_trade\<close> on its own.
\<close>

fun scan_abs :: "int \<Rightarrow> trade_tick list \<Rightarrow> (int \<times> pyfloat) option \<Rightarrow> (int \<times> pyfloat) option" where
  "scan_abs ts [] st = st"
| "scan_abs ts (u # us) None = scan_abs ts us (Some (\<bar>ts - timestamp u\<bar>, price u))"
| "scan_abs ts (u # us) (Some (m, p)) =
     (if \<bar>ts - timestamp u\<bar> < m then scan_abs ts us (Some (\<bar>ts - timestamp u\<bar>, price u))
      else scan_abs ts us (Some (m, p)))"

definition nearest_in :: "int \<Rightarrow> trade_tick list \<Rightarrow> trade_tick \<Rightarrow> bool" where
  "nearest_in ts l u = list_all (\<lambda>v. \<bar>ts - timestamp u\<bar> \<le> \<bar>ts - timestamp v\<bar>) l"

text \<open>
  The theoretical value of the instrument at a price of the underlying. No branch assigns
  \<open>theoretical_value\<close> for an instrument of another type.
\<close>

definition theoretical_value_at :: "externals \<Rightarrow> instrument \<Rightarrow> pyfloat \<Rightarrow> error + pyfloat" where
  "theoretical_value_at ext instr traded_price_underlying =
     (if instrument_type instr = STOCK_OPTION then
        calculate_theoretical_option_value ext (expiry instr) (strike instr) (option_kind instr)
          traded_price_underlying (binary64 (3 / 100)) 3
      else if instrument_type instr = STOCK_FUTURE then
        Inr (fmul traded_price_underlying
               (pow ext (math_e ext)
                  (fmul (binary64 (3 / 100)) (calculate_current_time_to_date ext (expiry instr)))))
      else if instrument_type instr = STOCK then Inr traded_price_underlying
      else Inl UnboundLocalError)"

text \<open>
  The accumulation as the specification words it: for every trade of the instrument, the
  squared deviation of its price from the theoretical value at the price of the nearest
  underlying trade. An instrument trade with no underlying trade to match has no such
  value, as in the program.
\<close>

fun spec_deviation_sum ::
  "externals \<Rightarrow> instrument \<Rightarrow> trade_tick list \<Rightarrow> trade_tick list \<Rightarrow> pyfloat \<Rightarrow> error + pyfloat"
where
  "spec_deviation_sum ext instr data_underlying [] acc = Inr acc"
| "spec_deviation_sum ext instr data_underlying (trade # rest) acc =
     (case spec_nearest_trade (timestamp trade) data_underlying of
        None \<Rightarrow> Inl UnboundLocalError
      | Some nearest \<Rightarrow>
          (case theoretical_value_at ext instr (price nearest) of
             Inl e \<Rightarrow> Inl e
           | Inr theoretical_value \<Rightarrow>
               spec_deviation_sum ext instr data_underlying rest
                 (fadd acc (pow ext (fsub theoretical_value (price trade)) 2))))"

text \<open>
  The outer loop over \<open>data_instrument\<close>. Its two branches differ only in the total that
  takes the volume of the trade. With an empty \<open>data_underlying\<close> the inner loop assigns
  nothing and the use of \<open>traded_price_underlying\<close> raises \<open>UnboundLocalError\<close>.
\<close>

fun tick_loop ::
  "externals \<Rightarrow> instrument \<Rightarrow> trade_tick list \<Rightarrow> trade_tick list \<Rightarrow> int \<Rightarrow> int \<Rightarrow> pyfloat
   \<Rightarrow> error + int \<times> int \<times> pyfloat"
where
  "tick_loop ext instr data_underlying [] total_ask_volume total_bid_volume
     aggregate_squared_deviation =
     Inr (total_ask_volume, total_bid_volume, aggregate_squared_deviation)"
| "tick_loop ext instr data_underlying (line # rest) total_ask_volume total_bid_volume
     aggregate_squared_deviation =
     (let total_bid_volume =
            (if aggressor_side line = ''bid'' then total_bid_volume + volume line
             else total_bid_volume);
          total_ask_volume =
            (if aggressor_side line = ''bid'' then total_ask_volume
             else total_ask_volume + volume line);
          traded_price_instrument = price line;
          timestamp_instrument = timestamp line
      in
      case match_underlying timestamp_instrument data_underlying None of
        None \<Rightarrow> Inl UnboundLocalError
      | Some (minimum, traded_price_underlying) \<Rightarrow>
          (case theoretical_value_at ext instr traded_price_underlying of
             Inl e \<Rightarrow> Inl e
           | Inr theoretical_value \<Rightarrow>
               tick_loop ext instr data_underlying rest total_ask_volume total_bid_volume
                 (fadd aggregate_squared_deviation
                    (pow ext (fsub theoretical_value traded_price_instrument) 2))))"

text \<open>The quotient of two \<open>int\<close>s, \<open>a / b\<close>: the float nearest to the exact quotient.\<close>

definition int_truediv :: "int \<Rightarrow> int \<Rightarrow> error + pyfloat" where
  "int_truediv a b =
     (if b = 0 then Inl ZeroDivisionError else Inr (binary64 (of_int a / of_int b)))"

text \<open>
  \<open>get_quantified_data\<close>, given what \<open>exchange.get_instruments()\<close> returns and the function
  \<open>exchange.get_trade_tick_history\<close>. For a stock the instrument becomes the dual listing.
  The three divisions by \<open>len(data_instrument)\<close> follow the loop with no test in between.
\<close>

definition get_quantified_data ::
  "externals \<Rightarrow> (string \<rightharpoonup> instrument) \<Rightarrow> (string \<Rightarrow> trade_tick list) \<Rightarrow> string \<Rightarrow> instrument
   \<Rightarrow> error + pyfloat \<times> pyfloat \<times> pyfloat"
where
  "get_quantified_data ext all_instruments get_trade_tick_history underlying instr0 =
     (case
        (if instrument_type instr0 = STOCK then
           (if underlying = ''NVDA'' then
              (case all_instruments ''NVDA_DUAL'' of
                 None \<Rightarrow> Inl KeyError
               | Some instr \<Rightarrow>
                   Inr (instr, get_trade_tick_history (instrument_id instr),
                        get_trade_tick_history ''NVDA''))
            else
              (case all_instruments ''SAN_DUAL'' of
                 None \<Rightarrow> Inl KeyError
               | Some instr \<Rightarrow>
                   Inr (instr, get_trade_tick_history (instrument_id instr),
                        get_trade_tick_history ''SAN'')))
         else Inr (instr0, get_trade_tick_history (instrument_id instr0),
                   get_trade_tick_history underlying))
      of
        Inl e \<Rightarrow> Inl e
      | Inr (instr, data_instrument, data_underlying) \<Rightarrow>
     (case tick_loop ext instr data_underlying data_instrument 0 0 0 of
        Inl e \<Rightarrow> Inl e
      | Inr (total_ask_volume, total_bid_volume, aggregate_squared_deviation) \<Rightarrow>
     (case fdiv aggregate_squared_deviation (float_of_int (int (length data_instrument))) of
        Inl e \<Rightarrow> Inl e
      | Inr average_squared_deviation \<Rightarrow>
     (case int_truediv total_ask_volume (int (length data_instrument)) of
        Inl e \<Rightarrow> Inl e
      | Inr average_volume_ask \<Rightarrow>
     (case int_truediv total_bid_volume (int (length data_instrument)) of
        Inl e \<Rightarrow> Inl e
      | Inr average_volume_bid \<Rightarrow>
          Inr (average_squared_deviation, average_volume_ask, average_volume_bid))))))"

section \<open>Credit\<close>

text \<open>
  \<^verbatim>\<open>optimal_credit = sqrt(average_squared_deviation) - (sqrt(average_squared_deviation) % 0.1)\<close>
  as a function of \<open>rt\<close>, the float that \<open>math.sqrt\<close> returns. The literal \<open>0.1\<close> is the
  float \<open>binary64 (1 / 10)\<close>, which is a little more than one tenth.
\<close>

definition optimal_credit :: "pyfloat \<Rightarrow> error + pyfloat" where
  "optimal_credit rt =
     (case fmod rt (binary64 (1 / 10)) of
        Inl e \<Rightarrow> Inl e
      | Inr m \<Rightarrow> Inr (fsub rt m))"

section \<open>Sample data\<close>

text \<open>
  Values for the instances at the end: parameters with a flat option delta of one half,
  two options of NVDA, a price book with one level on each side and an empty one.
\<close>

definition sample_externals :: externals where
  "sample_externals =
     \<lparr>call_value = (\<lambda>S K T r sigma. 1),
      put_value = (\<lambda>S K T r sigma. 1),
      call_delta = (\<lambda>S K T r sigma. 1 / 2),
      put_delta = (\<lambda>S K T r sigma. - 1 / 2),
      calculate_current_time_to_date = (\<lambda>d. 1 / 4),
      pow = (\<lambda>x y. if y = 2 then fmul x x else 1),
      math_e = 6121026514868073 / 2251799813685248\<rparr>"

definition nvda_call :: instrument where
  "nvda_call = \<lparr>instrument_id = ''NVDA_C'', instrument_type = STOCK_OPTION,
     base_instrument_id = ''NVDA'', expiry = 30, strike = 100, option_kind = CALL\<rparr>"

definition nvda_put :: instrument where
  "nvda_put = \<lparr>instrument_id = ''NVDA_P'', instrument_type = STOCK_OPTION,
     base_instrument_id = ''NVDA'', expiry = 30, strike = 100, option_kind = PUT\<rparr>"

definition full_book :: price_book where
  "full_book = \<lparr>bids = [\<lparr>price = 100, volume = 50\<rparr>], asks = [\<lparr>price = 101, volume = 50\<rparr>]\<rparr>"

definition empty_book :: price_book where
  "empty_book = \<lparr>bids = [], asks = []\<rparr>"

text \<open>
  Trade histories: three trades of NVDA, the newest first, and one trade of its dual
  listing; no trade of any other instrument.
\<close>

definition newest_first :: "trade_tick list" where
  "newest_first =
     [\<lparr>price = 1, volume = 1, timestamp = 13, aggressor_side = ''bid''\<rparr>,
      \<lparr>price = 2, volume = 1, timestamp = 12, aggressor_side = ''ask''\<rparr>,
      \<lparr>price = 3, volume = 1, timestamp = 11, aggressor_side = ''bid''\<rparr>]"

definition nvda_dual :: instrument where
  "nvda_dual = \<lparr>instrument_id = ''NVDA_DUAL'', instrument_type = STOCK,
     base_instrument_id = ''NVDA'', expiry = 0, strike = 0, option_kind = NO_KIND\<rparr>"

definition nvda_future :: instrument where
  "nvda_future = \<lparr>instrument_id = ''NVDA_F'', instrument_type = STOCK_FUTURE,
     base_instrument_id = ''NVDA'', expiry = 30, strike = 0, option_kind = NO_KIND\<rparr>"

definition sample_history :: "string \<Rightarrow> trade_tick list" where
  "sample_history iid =
     (if iid = ''NVDA'' then newest_first
      else if iid = ''NVDA_DUAL'' then
        [\<lparr>price = 5, volume = 7, timestamp = 10, aggressor_side = ''bid''\<rparr>]
      else [])"

text \<open>
  Histories in chronological order, as the exchange returns them, and two snapshots of the
  positions that differ in the future, the stock and the dual listing.
\<close>

definition chronological_history :: "string \<Rightarrow> trade_tick list" where
  "chronological_history iid =
     (if iid = ''NVDA'' then
        [\<lparr>price = 3, volume = 1, timestamp = 11, aggressor_side = ''bid''\<rparr>,
         \<lparr>price = 2, volume = 1, timestamp = 12, aggressor_side = ''ask''\<rparr>,
         \<lparr>price = 1, volume = 1, timestamp = 13, aggressor_side = ''bid''\<rparr>]
      else if iid = ''NVDA_DUAL'' then
        [\<lparr>price = 5, volume = 7, timestamp = 10, aggressor_side = ''bid''\<rparr>,
         \<lparr>price = 4, volume = 3, timestamp = 13, aggressor_side = ''ask''\<rparr>]
      else [])"

definition early_positions :: positions where
  "early_positions =
     [''NVDA_C'' \<mapsto> 80, ''NVDA_P'' \<mapsto> 20, ''NVDA_F'' \<mapsto> 1, ''NVDA'' \<mapsto> 1, ''NVDA_DUAL'' \<mapsto> 1]"

definition late_positions :: positions where
  "late_positions =
     [''NVDA_C'' \<mapsto> 80, ''NVDA_P'' \<mapsto> 20, ''NVDA_F'' \<mapsto> 30, ''NVDA'' \<mapsto> 2, ''NVDA_DUAL'' \<mapsto> 40]"



section \<open>Unsupported option kinds\<close>

text \<open>
  C5. For an option kind that is neither CALL nor PUT, \<open>calculate_option_delta\<close> raises its
  own exception, which names the kind, but \<open>calculate_theoretical_option_value\<close> reaches
  \<open>return option_value\<close> with the variable unbound: it fails with \<open>UnboundLocalError\<close>, not
  with an error of its own. For CALL and PUT both return the Black-Scholes result.
\<close>

theorem calculate_theoretical_option_value_no_kind:
  "calculate_theoretical_option_value ext d k NO_KIND s r v = Inl UnboundLocalError
   \<and> calculate_option_delta ext d k NO_KIND s r v = Inl (Exception NO_KIND)
   \<and> calculate_theoretical_option_value ext d k CALL s r v
       = Inr (call_value ext s k (calculate_current_time_to_date ext d) r v)
   \<and> calculate_theoretical_option_value ext d k PUT s r v
       = Inr (put_value ext s k (calculate_current_time_to_date ext d) r v)
   \<and> calculate_option_delta ext d k CALL s r v
       = Inr (call_delta ext s k (calculate_current_time_to_date ext d) r v)
   \<and> calculate_option_delta ext d k PUT s r v
       = Inr (put_delta ext s k (calculate_current_time_to_date ext d) r v)"
  by (simp add: calculate_theoretical_option_value_def calculate_option_delta_def)

section \<open>Properties of the reconciliation\<close>

text \<open>
  A flag of the second loop is false exactly when some order of that side rests at the new
  price; the first loop has then bound the existing price of that side, so the check
  against a self-trade never reads an unbound variable.
\<close>

lemma existing_prices_bid_bound:
  "snd (existing_prices os a b) = None \<Longrightarrow> b = None \<and> (\<forall>x\<in>set os. side x = ''ask'')"
  by (induction os arbitrary: a b) (auto split: if_splits)

lemma existing_prices_ask_bound:
  "fst (existing_prices os a b) = None \<Longrightarrow> a = None \<and> (\<forall>x\<in>set os. side x \<noteq> ''ask'')"
  by (induction os arbitrary: a b) (auto split: if_splits)

lemma compare_orders_ask_flag:
  "fst (compare_orders os nb na av bv st)
     = (fst st \<and> (\<forall>x\<in>set os. side x = ''ask'' \<longrightarrow> price x \<noteq> na))"
  by (induction os nb na av bv st rule: compare_orders.induct) auto

lemma compare_orders_bid_flag:
  "fst (snd (compare_orders os nb na av bv st))
     = (fst (snd st) \<and> (\<forall>x\<in>set os. side x = ''bid'' \<longrightarrow> price x \<noteq> nb))"
  by (induction os nb na av bv st rule: compare_orders.induct) auto

lemma self_trade_check_bound:
  assumes ep: "existing_prices os None None = (ea, eb)"
    and co: "compare_orders os nb na av bv (True, True, None, None, True, True)
               = (uap, ubp, aid, bid, uav, ubv)"
  shows "\<exists>r. self_trade_check ea eb nb na uap ubp = Inr r"
proof -
  have uap: "uap = (\<forall>x\<in>set os. side x = ''ask'' \<longrightarrow> price x \<noteq> na)"
    using compare_orders_ask_flag [of os nb na av bv "(True, True, None, None, True, True)"] co
    by simp
  have ubp: "ubp = (\<forall>x\<in>set os. side x = ''bid'' \<longrightarrow> price x \<noteq> nb)"
    using compare_orders_bid_flag [of os nb na av bv "(True, True, None, None, True, True)"] co
    by simp
  have eb: "eb \<noteq> None" if "\<not> ubp"
  proof
    assume "eb = None"
    then have "\<forall>x\<in>set os. side x = ''ask''"
      using existing_prices_bid_bound [of os None None] ep by simp
    with that ubp show False by auto
  qed
  have ea: "ea \<noteq> None" if "\<not> uap"
  proof
    assume "ea = None"
    then have "\<forall>x\<in>set os. side x \<noteq> ''ask''"
      using existing_prices_ask_bound [of os None None] ep by simp
    with that uap show False by auto
  qed
  show ?thesis
    using ea eb by (auto simp: self_trade_check_def split: option.splits)
qed

text \<open>
  C9. With a signed inventory \<open>p\<close> of the instrument, \<open>operational_optimazation\<close> returns,
  before any cap, the ask volume \<open>suggested_volume + p\<close> when \<open>p > 0\<close> and the bid volume
  \<open>suggested_volume + |p|\<close> when \<open>p < 0\<close>; the volume of the other side, and both
  volumes when \<open>p = 0\<close>, are the suggested volume.
\<close>

theorem operational_optimazation_inventory_volumes:
  assumes "positions iid = Some p"
  shows "\<exists>uap ubp aid bid uav ubv.
     operational_optimazation positions iid outstanding_orders suggested_volume
       new_bid_price new_ask_price
     = Inr (if 0 < p then suggested_volume + p else suggested_volume,
            if p < 0 then suggested_volume + \<bar>p\<bar> else suggested_volume,
            uap, ubp, aid, bid, uav, ubv, positions)"
proof -
  obtain ea eb where ep: "existing_prices outstanding_orders None None = (ea, eb)"
    by (cases "existing_prices outstanding_orders None None")
  let ?av = "if 0 < p then suggested_volume + p else suggested_volume"
  let ?bv = "if 0 < p then suggested_volume
             else if p < 0 then suggested_volume + \<bar>p\<bar> else suggested_volume"
  obtain uap ubp aid bid uav ubv where
    co: "compare_orders outstanding_orders new_bid_price new_ask_price ?av ?bv
           (True, True, None, None, True, True) = (uap, ubp, aid, bid, uav, ubv)"
    by (cases "compare_orders outstanding_orders new_bid_price new_ask_price ?av ?bv
           (True, True, None, None, True, True)" rule: prod_cases6) blast
  obtain uap' ubp' where
    st: "self_trade_check ea eb new_bid_price new_ask_price uap ubp = Inr (uap', ubp')"
    using self_trade_check_bound [OF ep co] by auto
  have "operational_optimazation positions iid outstanding_orders suggested_volume
          new_bid_price new_ask_price
        = Inr (?av, ?bv, uap', ubp', aid, bid, uav, ubv, positions)"
    unfolding operational_optimazation_def Let_def using assms ep co st by simp
  moreover have "?bv = (if p < 0 then suggested_volume + \<bar>p\<bar> else suggested_volume)"
    by simp
  ultimately show ?thesis by simp
qed


section \<open>Properties of the submission\<close>

lemma pull_orders_deletes:
  "c \<in> set (pull_orders iid orders uap aid ubp bid) \<Longrightarrow> \<exists>k. c = Delete_order iid k"
  by (induction orders) (auto split: if_splits)

lemma pull_orders_no_insert:
  "Insert_order i pr v s t \<notin> set (pull_orders iid orders uap aid ubp bid)"
  using pull_orders_deletes by fastforce

lemma pull_orders_no_amend:
  "Amend_order i oid v \<notin> set (pull_orders iid orders uap aid ubp bid)"
  using pull_orders_deletes by fastforce

lemma update_quotes_raises:
  "round_down_to_tick (fsub theoretical_price credit) tick_size = Inl e
   \<or> round_up_to_tick (fadd theoretical_price credit) tick_size = Inl e
   \<or> positions iid = None
   \<Longrightarrow> fst (update_quotes orders positions iid theoretical_price credit optimal_ask_volume
          optimal_bid_volume position_limit tick_size uap aid ubp bid uav ubv)
       = pull_orders iid orders uap aid ubp bid"
  unfolding update_quotes_def Let_def
  by (auto split: sum.split option.split)

lemma update_quotes_returns:
  "round_down_to_tick (fsub theoretical_price credit) tick_size = Inr bid_price
   \<Longrightarrow> round_up_to_tick (fadd theoretical_price credit) tick_size = Inr ask_price
   \<Longrightarrow> positions iid = Some position
   \<Longrightarrow> update_quotes orders positions iid theoretical_price credit optimal_ask_volume
          optimal_bid_volume position_limit tick_size uap aid ubp bid uav ubv
       = (pull_orders iid orders uap aid ubp bid
          @ (if 0 < min optimal_bid_volume (position_limit - position) \<and> ubp then
               [Insert_order iid bid_price (min optimal_bid_volume (position_limit - position))
                  ''bid'' ''limit'']
             else if 0 < min optimal_bid_volume (position_limit - position) \<and> \<not> ubp \<and> ubv then
               [Amend_order iid bid (min optimal_bid_volume (position_limit - position))]
             else [])
          @ (if 0 < min optimal_ask_volume (position_limit + position) \<and> uap then
               [Insert_order iid ask_price (min optimal_ask_volume (position_limit + position))
                  ''ask'' ''limit'']
             else if 0 < min optimal_ask_volume (position_limit + position) \<and> \<not> uap \<and> uav then
               [Amend_order iid aid (min optimal_ask_volume (position_limit + position))]
             else []),
          Inr ())"
  unfolding update_quotes_def Let_def by simp

text \<open>
  C6. Every order that \<open>update_quotes\<close> inserts or amends has a positive volume, at most
  \<open>position_limit - position\<close> on the bid side and at most \<open>position_limit + position\<close> on
  the ask side, where \<open>position\<close> is the position it reads. When the capped volume of a side
  is not positive, all its calls are deletions and the insertion or amendment of the other
  side.
\<close>

theorem update_quotes_volume_caps:
  assumes pos: "positions iid = Some position"
  shows
    "(\<forall>i pr v s t.
        Insert_order i pr v s t
          \<in> set (fst (update_quotes orders positions iid theoretical_price credit
                optimal_ask_volume optimal_bid_volume position_limit tick_size
                update_ask_price ask_order_id update_bid_price bid_order_id
                update_ask_volume update_bid_volume))
        \<longrightarrow> 0 < v \<and> (s = ''bid'' \<and> v \<le> position_limit - position
                      \<or> s = ''ask'' \<and> v \<le> position_limit + position))
   \<and> (\<forall>i oid v.
        Amend_order i oid v
          \<in> set (fst (update_quotes orders positions iid theoretical_price credit
                optimal_ask_volume optimal_bid_volume position_limit tick_size
                update_ask_price ask_order_id update_bid_price bid_order_id
                update_ask_volume update_bid_volume))
        \<longrightarrow> 0 < v \<and> (oid = bid_order_id \<and> v \<le> position_limit - position
                      \<or> oid = ask_order_id \<and> v \<le> position_limit + position))
   \<and> (min optimal_bid_volume (position_limit - position) \<le> 0 \<longrightarrow>
        (\<forall>c \<in> set (fst (update_quotes orders positions iid theoretical_price credit
                optimal_ask_volume optimal_bid_volume position_limit tick_size
                update_ask_price ask_order_id update_bid_price bid_order_id
                update_ask_volume update_bid_volume)).
           (\<exists>k. c = Delete_order iid k)
           \<or> (\<exists>pr. c = Insert_order iid pr
                  (min optimal_ask_volume (position_limit + position)) ''ask'' ''limit'')
           \<or> c = Amend_order iid ask_order_id
                  (min optimal_ask_volume (position_limit + position))))
   \<and> (min optimal_ask_volume (position_limit + position) \<le> 0 \<longrightarrow>
        (\<forall>c \<in> set (fst (update_quotes orders positions iid theoretical_price credit
                optimal_ask_volume optimal_bid_volume position_limit tick_size
                update_ask_price ask_order_id update_bid_price bid_order_id
                update_ask_volume update_bid_volume)).
           (\<exists>k. c = Delete_order iid k)
           \<or> (\<exists>pr. c = Insert_order iid pr
                  (min optimal_bid_volume (position_limit - position)) ''bid'' ''limit'')
           \<or> c = Amend_order iid bid_order_id
                  (min optimal_bid_volume (position_limit - position))))"
  (is "?ins \<and> ?amd \<and> ?nobid \<and> ?noask")
proof -
  let ?calls = "fst (update_quotes orders positions iid theoretical_price credit
                optimal_ask_volume optimal_bid_volume position_limit tick_size
                update_ask_price ask_order_id update_bid_price bid_order_id
                update_ask_volume update_bid_volume)"
  let ?pull = "pull_orders iid orders update_ask_price ask_order_id update_bid_price bid_order_id"
  consider (raises) "?calls = ?pull"
    | (returns) bid_price ask_price where
        "round_down_to_tick (fsub theoretical_price credit) tick_size = Inr bid_price"
        "round_up_to_tick (fadd theoretical_price credit) tick_size = Inr ask_price"
  proof (cases "round_down_to_tick (fsub theoretical_price credit) tick_size")
    case (Inl e)
    then have "?calls = ?pull" by (intro update_quotes_raises [of _ _ _ e]) simp
    then show ?thesis using that by blast
  next
    case down: (Inr bid_price)
    show ?thesis
    proof (cases "round_up_to_tick (fadd theoretical_price credit) tick_size")
      case (Inl e)
      then have "?calls = ?pull" by (intro update_quotes_raises [of _ _ _ e]) simp
      then show ?thesis using that by blast
    next
      case (Inr ask_price)
      with down show ?thesis using that by blast
    qed
  qed
  then show ?thesis
  proof cases
    case raises
    have ?ins using raises pull_orders_no_insert by simp
    moreover have ?amd using raises pull_orders_no_amend by simp
    moreover have ?nobid using raises pull_orders_deletes by auto
    moreover have ?noask using raises pull_orders_deletes by auto
    ultimately show ?thesis by blast
  next
    case returns
    note eq = update_quotes_returns [where positions = positions and iid = iid
        and position = position, OF returns pos]
    have ?ins unfolding eq by (simp add: pull_orders_no_insert)
    moreover have ?amd unfolding eq by (simp add: pull_orders_no_amend)
    moreover have ?nobid unfolding eq using pull_orders_deletes by (auto split: if_splits)
    moreover have ?noask unfolding eq using pull_orders_deletes by (auto split: if_splits)
    ultimately show ?thesis by blast
  qed
qed


section \<open>The check against a self-trade\<close>

lemma update_quotes_keeps_ask:
  "Insert_order i pr v ''ask'' t
     \<notin> set (fst (update_quotes orders positions iid theoretical_price credit
              optimal_ask_volume optimal_bid_volume position_limit tick_size
              False aid ubp bid uav ubv))"
  unfolding update_quotes_def Let_def
  by (simp add: pull_orders_no_insert split: sum.split option.split)

lemma update_quotes_keeps_bid:
  "Insert_order i pr v ''bid'' t
     \<notin> set (fst (update_quotes orders positions iid theoretical_price credit
              optimal_ask_volume optimal_bid_volume position_limit tick_size
              uap aid False bid uav ubv))"
  unfolding update_quotes_def Let_def
  by (simp add: pull_orders_no_insert split: sum.split option.split)

lemma operational_optimazation_flags:
  assumes pos: "positions iid = Some p"
    and ep: "existing_prices os None None = (ea, eb)"
    and st: "self_trade_check ea eb nb na
               (\<forall>x\<in>set os. side x = ''ask'' \<longrightarrow> price x \<noteq> na)
               (\<forall>x\<in>set os. side x = ''bid'' \<longrightarrow> price x \<noteq> nb) = Inr (uap', ubp')"
  shows "\<exists>av bv aid bid uav ubv.
           operational_optimazation positions iid os sv nb na
           = Inr (av, bv, uap', ubp', aid, bid, uav, ubv, positions)"
proof -
  let ?av = "if 0 < p then sv + p else sv"
  let ?bv = "if 0 < p then sv else if p < 0 then sv + \<bar>p\<bar> else sv"
  obtain uap ubp aid bid uav ubv where
    co: "compare_orders os nb na ?av ?bv (True, True, None, None, True, True)
           = (uap, ubp, aid, bid, uav, ubv)"
    by (cases "compare_orders os nb na ?av ?bv (True, True, None, None, True, True)"
          rule: prod_cases6) blast
  have uap: "uap = (\<forall>x\<in>set os. side x = ''ask'' \<longrightarrow> price x \<noteq> na)"
    using compare_orders_ask_flag [of os nb na ?av ?bv "(True, True, None, None, True, True)"]
    unfolding co by simp
  have ubp: "ubp = (\<forall>x\<in>set os. side x = ''bid'' \<longrightarrow> price x \<noteq> nb)"
    using compare_orders_bid_flag [of os nb na ?av ?bv "(True, True, None, None, True, True)"]
    unfolding co by simp
  have "operational_optimazation positions iid os sv nb na
        = Inr (?av, ?bv, uap', ubp', aid, bid, uav, ubv, positions)"
    unfolding operational_optimazation_def Let_def using pos ep co st uap ubp by simp
  then show ?thesis by blast
qed

text \<open>
  C7. When the price of one side only is changing (an order of the other side rests at its
  new price) and the new price of the changing side is the existing price of the other
  side, \<open>operational_optimazation\<close> returns both price flags false, and \<open>update_quotes\<close>
  called with its results inserts no order on the changing side.
\<close>

theorem self_trade_guard_suppresses_insert:
  assumes pos: "positions iid = Some p"
  shows
    "((\<exists>x\<in>set outstanding_orders. side x = ''bid'' \<and> price x = new_bid_price)
      \<and> (\<forall>x\<in>set outstanding_orders. side x = ''ask'' \<longrightarrow> price x \<noteq> new_ask_price)
      \<and> snd (existing_prices outstanding_orders None None) = Some new_ask_price
      \<longrightarrow> (\<exists>av bv aid bid uav ubv.
             operational_optimazation positions iid outstanding_orders suggested_volume
               new_bid_price new_ask_price
             = Inr (av, bv, False, False, aid, bid, uav, ubv, positions)
           \<and> (\<forall>pr v t. Insert_order iid pr v ''ask'' t
                \<notin> set (fst (update_quotes orders positions' iid theoretical_price credit
                         av bv position_limit tick_size False aid False bid uav ubv)))))
   \<and> ((\<exists>x\<in>set outstanding_orders. side x = ''ask'' \<and> price x = new_ask_price)
      \<and> (\<forall>x\<in>set outstanding_orders. side x = ''bid'' \<longrightarrow> price x \<noteq> new_bid_price)
      \<and> fst (existing_prices outstanding_orders None None) = Some new_bid_price
      \<longrightarrow> (\<exists>av bv aid bid uav ubv.
             operational_optimazation positions iid outstanding_orders suggested_volume
               new_bid_price new_ask_price
             = Inr (av, bv, False, False, aid, bid, uav, ubv, positions)
           \<and> (\<forall>pr v t. Insert_order iid pr v ''bid'' t
                \<notin> set (fst (update_quotes orders positions' iid theoretical_price credit
                         av bv position_limit tick_size False aid False bid uav ubv)))))"
proof (intro conjI impI)
  assume h: "(\<exists>x\<in>set outstanding_orders. side x = ''bid'' \<and> price x = new_bid_price)
      \<and> (\<forall>x\<in>set outstanding_orders. side x = ''ask'' \<longrightarrow> price x \<noteq> new_ask_price)
      \<and> snd (existing_prices outstanding_orders None None) = Some new_ask_price"
  obtain ea where ep: "existing_prices outstanding_orders None None = (ea, Some new_ask_price)"
    using h by (cases "existing_prices outstanding_orders None None") simp
  have "self_trade_check ea (Some new_ask_price) new_bid_price new_ask_price
          (\<forall>x\<in>set outstanding_orders. side x = ''ask'' \<longrightarrow> price x \<noteq> new_ask_price)
          (\<forall>x\<in>set outstanding_orders. side x = ''bid'' \<longrightarrow> price x \<noteq> new_bid_price)
        = Inr (False, False)"
    using h by (auto simp: self_trade_check_def)
  from operational_optimazation_flags [where positions = positions and iid = iid
      and sv = suggested_volume, OF pos ep this]
  show "\<exists>av bv aid bid uav ubv.
          operational_optimazation positions iid outstanding_orders suggested_volume
            new_bid_price new_ask_price
          = Inr (av, bv, False, False, aid, bid, uav, ubv, positions)
        \<and> (\<forall>pr v t. Insert_order iid pr v ''ask'' t
             \<notin> set (fst (update_quotes orders positions' iid theoretical_price credit
                      av bv position_limit tick_size False aid False bid uav ubv)))"
    by (auto simp: update_quotes_keeps_ask)
next
  assume h: "(\<exists>x\<in>set outstanding_orders. side x = ''ask'' \<and> price x = new_ask_price)
      \<and> (\<forall>x\<in>set outstanding_orders. side x = ''bid'' \<longrightarrow> price x \<noteq> new_bid_price)
      \<and> fst (existing_prices outstanding_orders None None) = Some new_bid_price"
  obtain eb where ep: "existing_prices outstanding_orders None None = (Some new_bid_price, eb)"
    using h by (cases "existing_prices outstanding_orders None None") simp
  have "self_trade_check (Some new_bid_price) eb new_bid_price new_ask_price
          (\<forall>x\<in>set outstanding_orders. side x = ''ask'' \<longrightarrow> price x \<noteq> new_ask_price)
          (\<forall>x\<in>set outstanding_orders. side x = ''bid'' \<longrightarrow> price x \<noteq> new_bid_price)
        = Inr (False, False)"
    using h by (auto simp: self_trade_check_def)
  from operational_optimazation_flags [where positions = positions and iid = iid
      and sv = suggested_volume, OF pos ep this]
  show "\<exists>av bv aid bid uav ubv.
          operational_optimazation positions iid outstanding_orders suggested_volume
            new_bid_price new_ask_price
          = Inr (av, bv, False, False, aid, bid, uav, ubv, positions)
        \<and> (\<forall>pr v t. Insert_order iid pr v ''bid'' t
             \<notin> set (fst (update_quotes orders positions' iid theoretical_price credit
                      av bv position_limit tick_size False aid False bid uav ubv)))"
    by (auto simp: update_quotes_keeps_bid)
qed


section \<open>Instances\<close>

theorem operational_optimazation_inventory_volumes_witness:
  "[''A'' \<mapsto> (7::int)] ''A'' = Some 7
   \<and> operational_optimazation [''A'' \<mapsto> 7] ''A'' [] 20 (23 / 2) (25 / 2)
       = Inr (27, 20, True, True, None, None, True, True, [''A'' \<mapsto> 7])
   \<and> operational_optimazation [''A'' \<mapsto> - 4] ''A'' [] 20 (23 / 2) (25 / 2)
       = Inr (20, 24, True, True, None, None, True, True, [''A'' \<mapsto> - 4])
   \<and> operational_optimazation [''A'' \<mapsto> 0] ''A'' [] 20 (23 / 2) (25 / 2)
       = Inr (20, 20, True, True, None, None, True, True, [''A'' \<mapsto> 0])"
  using operational_optimazation_inventory_volumes
          [of "[''A'' \<mapsto> 7]" "''A''" 7 "[]" 20 "23 / 2" "25 / 2"]
        operational_optimazation_inventory_volumes
          [of "[''A'' \<mapsto> - 4]" "''A''" "- 4" "[]" 20 "23 / 2" "25 / 2"]
        operational_optimazation_inventory_volumes
          [of "[''A'' \<mapsto> 0]" "''A''" 0 "[]" 20 "23 / 2" "25 / 2"]
  by (simp add: operational_optimazation_def self_trade_check_def)


theorem update_quotes_volume_caps_witness:
  "[''A'' \<mapsto> (95::int)] ''A'' = Some 95
   \<and> fst (update_quotes [] [''A'' \<mapsto> 95] ''A'' 12 (1 / 4) 140 45 100 (binary64 (1 / 10))
            True None True None True True)
       = [Insert_order ''A'' (6586514455029351 / 562949953421312) 5 ''bid'' ''limit'',
          Insert_order ''A'' (3462142213541069 / 281474976710656) 140 ''ask'' ''limit'']
   \<and> fst (update_quotes [] [''A'' \<mapsto> 100] ''A'' 12 (1 / 4) 145 45 100 (binary64 (1 / 10))
            True None True None True True)
       = [Insert_order ''A'' (3462142213541069 / 281474976710656) 145 ''ask'' ''limit'']"
proof -
  have a: "[''A'' \<mapsto> (95::int)] ''A'' = Some 95" and b: "[''A'' \<mapsto> (100::int)] ''A'' = Some 100"
    by simp_all
  have c: "fst (update_quotes [] [''A'' \<mapsto> 95] ''A'' 12 (1 / 4) 140 45 100 (binary64 (1 / 10))
            True None True None True True)
       = [Insert_order ''A'' (6586514455029351 / 562949953421312) 5 ''bid'' ''limit'',
          Insert_order ''A'' (3462142213541069 / 281474976710656) 140 ''ask'' ''limit'']"
    by code_simp
  have d: "fst (update_quotes [] [''A'' \<mapsto> 100] ''A'' 12 (1 / 4) 145 45 100 (binary64 (1 / 10))
            True None True None True True)
       = [Insert_order ''A'' (3462142213541069 / 281474976710656) 145 ''ask'' ''limit'']"
    by code_simp
  note t1 = update_quotes_volume_caps [where positions = "[''A'' \<mapsto> 95]" and iid = "''A''"
      and position = 95, OF a, of "[]" 12 "1 / 4" 140 45 100 "binary64 (1 / 10)"
      True None True None True True]
  note t2 = update_quotes_volume_caps [where positions = "[''A'' \<mapsto> 100]" and iid = "''A''"
      and position = 100, OF b, of "[]" 12 "1 / 4" 145 45 100 "binary64 (1 / 10)"
      True None True None True True]
  from t1 t2 a c d show ?thesis by simp
qed

theorem self_trade_guard_suppresses_insert_witness:
  "[''A'' \<mapsto> (0::int)] ''A'' = Some 0
   \<and> operational_optimazation [''A'' \<mapsto> 0] ''A''
         [\<lparr>price = 100, volume = 10, order_id = 1, side = ''bid''\<rparr>] 10 100 100
       = Inr (10, 10, False, False, None, Some 1, True, False, [''A'' \<mapsto> 0])
   \<and> operational_optimazation [''A'' \<mapsto> 0] ''A''
         [\<lparr>price = 100, volume = 10, order_id = 2, side = ''ask''\<rparr>] 10 100 100
       = Inr (10, 10, False, False, Some 2, None, False, True, [''A'' \<mapsto> 0])
   \<and> fst (update_quotes [(1, \<lparr>price = 100, volume = 10, order_id = 1, side = ''bid''\<rparr>)]
            [''A'' \<mapsto> 0] ''A'' 100 0 10 10 100 (binary64 (1 / 10))
            False None False (Some 1) True False)
       = [Amend_order ''A'' None 10]"
proof -
  have a: "[''A'' \<mapsto> (0::int)] ''A'' = Some 0" by simp
  have c: "fst (update_quotes [(1, \<lparr>price = 100, volume = 10, order_id = 1, side = ''bid''\<rparr>)]
            [''A'' \<mapsto> 0] ''A'' 100 0 10 10 100 (binary64 (1 / 10))
            False None False (Some 1) True False)
       = [Amend_order ''A'' None 10]"
    by code_simp
  note t1 = self_trade_guard_suppresses_insert [where positions = "[''A'' \<mapsto> 0]"
      and iid = "''A''" and p = 0, OF a,
      of "[\<lparr>price = 100, volume = 10, order_id = 1, side = ''bid''\<rparr>]" 100 100 10]
  note t2 = self_trade_guard_suppresses_insert [where positions = "[''A'' \<mapsto> 0]"
      and iid = "''A''" and p = 0, OF a,
      of "[\<lparr>price = 100, volume = 10, order_id = 2, side = ''ask''\<rparr>]" 100 100 10]
  from t1 t2 a c show ?thesis
    by (simp add: operational_optimazation_def self_trade_check_def)
qed

section \<open>Properties of the hedge\<close>

text \<open>Python's \<open>round\<close> fixes the integers, is monotone at them and is odd.\<close>

lemma py_round_of_int: "py_round (of_int n) = n"
  by (simp add: py_round_def)

lemma py_round_ge: "of_int n \<le> x \<Longrightarrow> n \<le> py_round x"
proof -
  assume "of_int n \<le> x"
  then have "n \<le> \<lfloor>x\<rfloor>" by (simp add: le_floor_iff)
  then show ?thesis by (simp add: py_round_def Let_def)
qed

lemma py_round_le: "x \<le> of_int n \<Longrightarrow> py_round x \<le> n"
proof -
  assume a: "x \<le> of_int n"
  show ?thesis
  proof (cases "x = of_int n")
    case True
    then show ?thesis by (simp add: py_round_of_int)
  next
    case False
    with a have "x < of_int n" by simp
    then have "\<lfloor>x\<rfloor> < n" by (simp add: floor_less_iff)
    then show ?thesis by (simp add: py_round_def Let_def)
  qed
qed

lemma py_round_minus: "py_round (- x) = - py_round x"
proof (cases "x = of_int \<lfloor>x\<rfloor>")
  case True
  then obtain n where n: "x = of_int n" ..
  then have "- x = of_int (- n)" by simp
  then have "py_round (- x) = - n" using py_round_of_int by metis
  then show ?thesis using n py_round_of_int by simp
next
  case False
  have lo: "of_int \<lfloor>x\<rfloor> < x" using False of_int_floor_le [of x] by linarith
  have hi: "x < of_int \<lfloor>x\<rfloor> + 1" by linarith
  have fl: "\<lfloor>- x\<rfloor> = - \<lfloor>x\<rfloor> - 1"
    by (rule floor_unique) (use lo hi in simp_all)
  show ?thesis
    unfolding py_round_def Let_def fl using lo hi by (auto simp: field_simps)
qed

lemma abs_py_round: "\<bar>py_round x\<bar> = py_round \<bar>x\<bar>"
proof (cases "0 \<le> x")
  case True
  then have "0 \<le> py_round x" using py_round_ge [of 0 x] by simp
  with True show ?thesis by simp
next
  case False
  then have "py_round x \<le> 0" using py_round_le [of x 0] by simp
  with False show ?thesis by (simp add: py_round_minus)
qed


text \<open>
  The loop that waits for a two-sided book: it steps over a book with an empty side, it
  returns the first book with none, and it never returns if every book has one.
\<close>

lemma wait_for_book_found:
  "book_feed n = Some b \<Longrightarrow> bids b \<noteq> [] \<Longrightarrow> asks b \<noteq> []
   \<Longrightarrow> wait_for_book book_feed n = Some (Inr b)"
  by (subst wait_for_book.simps) simp

lemma wait_for_book_step:
  "book_feed n = Some b \<Longrightarrow> bids b = [] \<or> asks b = []
   \<Longrightarrow> wait_for_book book_feed n = wait_for_book book_feed (Suc n)"
  by (subst wait_for_book.simps) auto

lemma wait_for_book_skip:
  "(\<And>j. j < k \<Longrightarrow> \<exists>b. book_feed (n + j) = Some b \<and> (bids b = [] \<or> asks b = []))
   \<Longrightarrow> wait_for_book book_feed n = wait_for_book book_feed (n + k)"
proof (induction k arbitrary: n)
  case 0
  then show ?case by simp
next
  case (Suc k)
  from Suc.prems [of 0] obtain b where
    "book_feed n = Some b" "bids b = [] \<or> asks b = []" by auto
  then have "wait_for_book book_feed n = wait_for_book book_feed (Suc n)"
    by (rule wait_for_book_step)
  also have "\<dots> = wait_for_book book_feed (Suc n + k)"
  proof (rule Suc.IH)
    fix j assume "j < k"
    then show "\<exists>b. book_feed (Suc n + j) = Some b \<and> (bids b = [] \<or> asks b = [])"
      using Suc.prems [of "Suc j"] by simp
  qed
  finally show ?case by simp
qed

lemma wait_for_book_never:
  assumes "\<And>j. \<exists>b. book_feed j = Some b \<and> (bids b = [] \<or> asks b = [])"
  shows "wait_for_book book_feed n = None"
proof (rule ccontr)
  assume "wait_for_book book_feed n \<noteq> None"
  then obtain y where y: "wait_for_book book_feed n = Some y" by auto
  have "\<not> (\<forall>j. \<exists>b. book_feed j = Some b \<and> (bids b = [] \<or> asks b = []))"
  proof (rule wait_for_book.raw_induct
      [where P = "\<lambda>feed n y. \<not> (\<forall>j. \<exists>b. feed j = Some b \<and> (bids b = [] \<or> asks b = []))",
       OF _ y])
    fix wait :: "(nat \<Rightarrow> price_book option) \<Rightarrow> nat \<Rightarrow> (error + price_book) option"
      and feed n y
    assume ih: "\<And>feed n y. wait feed n = Some y
                 \<Longrightarrow> \<not> (\<forall>j. \<exists>b. feed j = Some b \<and> (bids b = [] \<or> asks b = []))"
      and eq: "(case feed n of
                  None \<Rightarrow> Some (Inl AttributeError)
                | Some underlying_order_book \<Rightarrow>
                    if bids underlying_order_book = [] \<or> asks underlying_order_book = []
                    then wait feed (Suc n)
                    else Some (Inr underlying_order_book)) = Some y"
    show "\<not> (\<forall>j. \<exists>b. feed j = Some b \<and> (bids b = [] \<or> asks b = []))"
    proof
      assume a: "\<forall>j. \<exists>b. feed j = Some b \<and> (bids b = [] \<or> asks b = [])"
      then obtain b where b: "feed n = Some b" "bids b = [] \<or> asks b = []" by blast
      with eq have "wait feed (Suc n) = Some y" by auto
      from ih [OF this] a show False by blast
    qed
  qed
  with assms show False by blast
qed

lemma wait_for_book_two_sided:
  assumes y: "wait_for_book book_feed n = Some (Inr b)"
  shows "bids b \<noteq> [] \<and> asks b \<noteq> []"
proof -
  have "\<forall>b'. (Inr b :: error + price_book) = Inr b' \<longrightarrow> bids b' \<noteq> [] \<and> asks b' \<noteq> []"
  proof (rule wait_for_book.raw_induct
      [where P = "\<lambda>feed n y. \<forall>b. y = Inr b \<longrightarrow> bids b \<noteq> [] \<and> asks b \<noteq> []", OF _ y])
    fix wait :: "(nat \<Rightarrow> price_book option) \<Rightarrow> nat \<Rightarrow> (error + price_book) option"
      and feed n y
    assume ih: "\<And>feed n y. wait feed n = Some y
                 \<Longrightarrow> \<forall>b. y = Inr b \<longrightarrow> bids b \<noteq> [] \<and> asks b \<noteq> []"
      and eq: "(case feed n of
                  None \<Rightarrow> Some (Inl AttributeError)
                | Some underlying_order_book \<Rightarrow>
                    if bids underlying_order_book = [] \<or> asks underlying_order_book = []
                    then wait feed (Suc n)
                    else Some (Inr underlying_order_book)) = Some y"
    show "\<forall>b. y = Inr b \<longrightarrow> bids b \<noteq> [] \<and> asks b \<noteq> []"
      using ih eq by (auto split: option.splits if_splits)
  qed
  then show ?thesis by simp
qed


lemma hedge_order_decision:
  assumes "bids b \<noteq> []" "asks b \<noteq> []" "1 \<le> threshold"
  shows "hedge_order iid threshold agg sp b =
     Inr (if of_int threshold < agg \<and> 0 < 100 + sp then
            [Insert_order iid (price (hd (bids b))) (min (py_round \<bar>agg\<bar>) (100 + sp))
               ''ask'' ''ioc'']
          else if agg < - of_int threshold \<and> 0 < 100 - sp then
            [Insert_order iid (price (hd (asks b))) (min (py_round \<bar>agg\<bar>) (100 - sp))
               ''bid'' ''ioc'']
          else [])"
proof -
  have pos: "0 < py_round \<bar>agg\<bar>" if "of_int threshold < \<bar>agg\<bar>"
  proof -
    have "threshold \<le> py_round \<bar>agg\<bar>" using that by (intro py_round_ge) simp
    with assms(3) show ?thesis by simp
  qed
  have a: "0 < py_round \<bar>agg\<bar>" if "of_int threshold < agg"
    using that by (intro pos) simp
  have b: "0 < py_round \<bar>agg\<bar>" if "agg < - of_int threshold"
    using that by (intro pos) simp
  obtain bb bs where bb: "bids b = bb # bs" using assms(1) by (cases "bids b") auto
  obtain ab as where ab: "asks b = ab # as" using assms(2) by (cases "asks b") auto
  show ?thesis
    unfolding hedge_order_def Let_def abs_py_round bb ab using a b by auto
qed

text \<open>
  C3. On the price book \<open>b\<close> on which it decides, \<open>hedge_delta_position\<close> inserts exactly one
  immediate-or-cancel sell order at the best bid, of volume
  \<open>min (round |aggregate|) (100 + stock_position)\<close>, when the aggregate delta is above the
  threshold (35 for NVDA, 1 for SAN) and \<open>100 + stock_position\<close> is positive; otherwise
  exactly one immediate-or-cancel buy order at the best ask, of volume
  \<open>min (round |aggregate|) (100 - stock_position)\<close>, when the aggregate is below the
  negative threshold and \<open>100 - stock_position\<close> is positive; otherwise no order, and so
  none for an aggregate within the thresholds.
\<close>

theorem hedge_delta_position_thresholds:
  assumes book: "wait_for_book book_feed 0 = Some (Inr b)"
  shows
    "bids b \<noteq> [] \<and> asks b \<noteq> []
     \<and> (nvda_aggregate ext positions_feed ''NVDA'' options futures stock_value = Inr (agg, sp)
        \<longrightarrow> hedge_delta_position ext positions_feed book_feed ''NVDA'' options futures
              stock_value
            = Some (Inr (if 35 < agg \<and> 0 < 100 + sp then
                           [Insert_order ''NVDA'' (price (hd (bids b)))
                              (min (py_round \<bar>agg\<bar>) (100 + sp)) ''ask'' ''ioc'']
                         else if agg < - 35 \<and> 0 < 100 - sp then
                           [Insert_order ''NVDA'' (price (hd (asks b)))
                              (min (py_round \<bar>agg\<bar>) (100 - sp)) ''bid'' ''ioc'']
                         else [])))
     \<and> (positions_feed 0 ''SAN'' = Some sp' \<and> positions_feed 0 ''SAN_DUAL'' = Some dual
        \<longrightarrow> hedge_delta_position ext positions_feed book_feed ''SAN'' options futures
              stock_value
            = Some (Inr (if 1 < sp' + dual \<and> 0 < 100 + sp' then
                           [Insert_order ''SAN'' (price (hd (bids b)))
                              (min \<bar>sp' + dual\<bar> (100 + sp')) ''ask'' ''ioc'']
                         else if sp' + dual < - 1 \<and> 0 < 100 - sp' then
                           [Insert_order ''SAN'' (price (hd (asks b)))
                              (min \<bar>sp' + dual\<bar> (100 - sp')) ''bid'' ''ioc'']
                         else [])))"
proof -
  have two: "bids b \<noteq> [] \<and> asks b \<noteq> []"
    using book by (rule wait_for_book_two_sided)
  have nvda: "hedge_order ''NVDA'' 35 agg sp b =
     Inr (if 35 < agg \<and> 0 < 100 + sp then
            [Insert_order ''NVDA'' (price (hd (bids b))) (min (py_round \<bar>agg\<bar>) (100 + sp))
               ''ask'' ''ioc'']
          else if agg < - 35 \<and> 0 < 100 - sp then
            [Insert_order ''NVDA'' (price (hd (asks b))) (min (py_round \<bar>agg\<bar>) (100 - sp))
               ''bid'' ''ioc'']
          else [])"
    using hedge_order_decision [of b 35 "''NVDA''" agg sp] two by simp
  have r: "py_round \<bar>of_int (sp' + dual)\<bar> = \<bar>sp' + dual\<bar>"
    using py_round_of_int [of "\<bar>sp' + dual\<bar>"] by simp
  have san: "hedge_order ''SAN'' 1 (of_int (sp' + dual)) sp' b =
     Inr (if 1 < sp' + dual \<and> 0 < 100 + sp' then
            [Insert_order ''SAN'' (price (hd (bids b))) (min \<bar>sp' + dual\<bar> (100 + sp'))
               ''ask'' ''ioc'']
          else if sp' + dual < - 1 \<and> 0 < 100 - sp' then
            [Insert_order ''SAN'' (price (hd (asks b))) (min \<bar>sp' + dual\<bar> (100 - sp'))
               ''bid'' ''ioc'']
          else [])"
  proof -
    have c1: "((1::rat) < of_int (sp' + dual)) = (1 < sp' + dual)"
      by (metis of_int_1 of_int_less_iff)
    have c2: "((of_int (sp' + dual) :: rat) < - 1) = (sp' + dual < - 1)"
      by (metis of_int_1 of_int_less_iff of_int_minus)
    show ?thesis
      using hedge_order_decision [of b 1 "''SAN''" "of_int (sp' + dual)" sp'] two
      unfolding r using c1 c2 by simp
  qed
  show ?thesis
    using two book nvda san by (simp add: hedge_delta_position_def)
qed


lemma hedge_delta_position_book:
  assumes "wait_for_book book_feed 0 = wait_for_book book_feed' 0"
  shows "hedge_delta_position ext positions_feed book_feed stock_id options futures stock_value
     = hedge_delta_position ext positions_feed book_feed' stock_id options futures stock_value"
  unfolding hedge_delta_position_def assms by (rule refl)

lemma hedge_delta_position_never:
  assumes "wait_for_book book_feed 0 = None"
  shows "(hedge_delta_position ext positions_feed book_feed stock_id options futures stock_value
            = None)
         = (stock_id = ''NVDA''
              \<and> (\<exists>r. nvda_aggregate ext positions_feed stock_id options futures stock_value
                        = Inr r)
            \<or> stock_id = ''SAN'' \<and> positions_feed 0 stock_id \<noteq> None
                \<and> positions_feed 0 ''SAN_DUAL'' \<noteq> None)"
    and "hedge_delta_position ext positions_feed book_feed stock_id options futures stock_value
           \<noteq> Some (Inr (c # cs))"
  using assms
  by (auto simp: hedge_delta_position_def Let_def split: sum.splits option.splits)

text \<open>
  C2, as the program has it. While the price book has an empty side, \<open>hedge_delta_position\<close>
  asks for it again: if the book number \<open>k\<close> is the first with two sides, the call does what
  it would have done with that book at once; if every book has an empty side, the call
  places no order and, once the aggregate is computed, never returns.
\<close>

theorem hedge_delta_position_polls_until_two_sided:
  "((\<forall>j<k. \<exists>b. book_feed j = Some b \<and> (bids b = [] \<or> asks b = []))
      \<and> book_feed k = Some b \<and> bids b \<noteq> [] \<and> asks b \<noteq> []
     \<longrightarrow> hedge_delta_position ext positions_feed book_feed stock_id options futures stock_value
         = hedge_delta_position ext positions_feed (\<lambda>j. Some b) stock_id options futures
             stock_value)
   \<and> ((\<forall>j. \<exists>b. book_feed j = Some b \<and> (bids b = [] \<or> asks b = []))
     \<longrightarrow> (hedge_delta_position ext positions_feed book_feed stock_id options futures stock_value
            = None)
         = (stock_id = ''NVDA''
              \<and> (\<exists>r. nvda_aggregate ext positions_feed stock_id options futures stock_value
                        = Inr r)
            \<or> stock_id = ''SAN'' \<and> positions_feed 0 stock_id \<noteq> None
                \<and> positions_feed 0 ''SAN_DUAL'' \<noteq> None)
       \<and> (\<forall>c cs. hedge_delta_position ext positions_feed book_feed stock_id options futures
                    stock_value \<noteq> Some (Inr (c # cs))))"
proof (intro conjI impI)
  assume h: "(\<forall>j<k. \<exists>b. book_feed j = Some b \<and> (bids b = [] \<or> asks b = []))
      \<and> book_feed k = Some b \<and> bids b \<noteq> [] \<and> asks b \<noteq> []"
  have "wait_for_book book_feed 0 = wait_for_book book_feed (0 + k)"
    by (rule wait_for_book_skip) (use h in simp)
  also have "\<dots> = Some (Inr b)"
    using h by (simp add: wait_for_book_found)
  also have "\<dots> = wait_for_book (\<lambda>j. Some b) 0"
    using h by (simp add: wait_for_book_found)
  finally show "hedge_delta_position ext positions_feed book_feed stock_id options futures
                  stock_value
                = hedge_delta_position ext positions_feed (\<lambda>j. Some b) stock_id options futures
                    stock_value"
    by (rule hedge_delta_position_book)
next
  assume h: "\<forall>j. \<exists>b. book_feed j = Some b \<and> (bids b = [] \<or> asks b = [])"
  then have n: "wait_for_book book_feed 0 = None"
    by (intro wait_for_book_never) simp
  from hedge_delta_position_never(1) [OF n]
  show "(hedge_delta_position ext positions_feed book_feed stock_id options futures stock_value
            = None)
         = (stock_id = ''NVDA''
              \<and> (\<exists>r. nvda_aggregate ext positions_feed stock_id options futures stock_value
                        = Inr r)
            \<or> stock_id = ''SAN'' \<and> positions_feed 0 stock_id \<noteq> None
                \<and> positions_feed 0 ''SAN_DUAL'' \<noteq> None)" .
next
  assume h: "\<forall>j. \<exists>b. book_feed j = Some b \<and> (bids b = [] \<or> asks b = [])"
  then have n: "wait_for_book book_feed 0 = None"
    by (intro wait_for_book_never) simp
  from hedge_delta_position_never(2) [OF n]
  show "\<forall>c cs. hedge_delta_position ext positions_feed book_feed stock_id options futures
                    stock_value \<noteq> Some (Inr (c # cs))" by blast
qed

lemma options_loop_bound:
  "options_loop ext positions_feed stock_value options n agg0 bound0 = Inr (agg, bound)
   \<Longrightarrow> bound = (if options = [] then bound0
                else Some (positions_feed (n + length options - 1)))"
proof (induction options arbitrary: n agg0 bound0)
  case Nil
  then show ?case by simp
next
  case (Cons a options)
  obtain option_id opt where a: "a = (option_id, opt)" by (cases a)
  from Cons.prems obtain d p where
    rest: "options_loop ext positions_feed stock_value options (Suc n)
             (fadd agg0 (fmul d (float_of_int p))) (Some (positions_feed n)) = Inr (agg, bound)"
    unfolding a by (auto simp: Let_def split: sum.splits option.splits)
  from Cons.IH [OF rest] show ?case by (cases options) auto
qed

lemma futures_loop_reads:
  "futures_loop (Some positions) futures acc
     = (case those (map (\<lambda>(future_id, future). positions future_id) futures) of
          None \<Rightarrow> Inl KeyError
        | Some ps \<Rightarrow> Inr (foldl (\<lambda>a p. fadd a (float_of_int p)) acc ps))"
proof (induction futures arbitrary: acc)
  case Nil
  then show ?case by simp
next
  case (Cons f futures)
  obtain future_id future where f: "f = (future_id, future)" by (cases f)
  show ?case
    unfolding f using Cons.IH
    by (cases "positions future_id";
        cases "those (map (\<lambda>(future_id, future). positions future_id) futures)") simp_all
qed

text \<open>
  C10. With no options, the \<open>"NVDA"\<close> branch of \<open>hedge_delta_position\<close> reads the unbound
  variable \<open>positions\<close> and raises \<open>UnboundLocalError\<close>, whatever the futures. With options,
  every read after the loop over the options (the position of each future, of the stock
  and of the dual listing) is from the snapshot fetched in the last iteration over the
  options, the call number \<open>length options - 1\<close> of \<open>get_positions\<close>; an exception of the
  aggregation is the exception of \<open>hedge_delta_position\<close>.
\<close>

theorem hedge_delta_position_positions_snapshot:
  "hedge_delta_position ext positions_feed book_feed ''NVDA'' [] futures stock_value
     = Some (Inl UnboundLocalError)
   \<and> (options \<noteq> []
      \<longrightarrow> nvda_aggregate ext positions_feed stock_id options futures stock_value
          = (case options_loop ext positions_feed stock_value options 0 0 None of
               Inl e \<Rightarrow> Inl e
             | Inr (acc, bound) \<Rightarrow>
            (case those (map (\<lambda>(future_id, future).
                                positions_feed (length options - 1) future_id) futures) of
               None \<Rightarrow> Inl KeyError
             | Some future_positions \<Rightarrow>
            (case positions_feed (length options - 1) stock_id of
               None \<Rightarrow> Inl KeyError
             | Some stock_position \<Rightarrow>
            (case positions_feed (length options - 1) ''NVDA_DUAL'' of
               None \<Rightarrow> Inl KeyError
             | Some stock_dual_position \<Rightarrow>
                 Inr (fadd (fadd (foldl (\<lambda>a p. fadd a (float_of_int p)) acc future_positions)
                              (float_of_int stock_position))
                        (float_of_int stock_dual_position),
                      stock_position))))))
   \<and> (nvda_aggregate ext positions_feed ''NVDA'' options futures stock_value = Inl e
      \<longrightarrow> hedge_delta_position ext positions_feed book_feed ''NVDA'' options futures
            stock_value
          = Some (Inl e))"
proof -
  have unbound:
    "hedge_delta_position ext positions_feed book_feed ''NVDA'' [] futures stock_value
       = Some (Inl UnboundLocalError)"
    by (cases futures)
       (auto simp: hedge_delta_position_def nvda_aggregate_def split: sum.splits)
  have reads: "nvda_aggregate ext positions_feed stock_id options futures stock_value
          = (case options_loop ext positions_feed stock_value options 0 0 None of
               Inl e \<Rightarrow> Inl e
             | Inr (acc, bound) \<Rightarrow>
            (case those (map (\<lambda>(future_id, future).
                                positions_feed (length options - 1) future_id) futures) of
               None \<Rightarrow> Inl KeyError
             | Some future_positions \<Rightarrow>
            (case positions_feed (length options - 1) stock_id of
               None \<Rightarrow> Inl KeyError
             | Some stock_position \<Rightarrow>
            (case positions_feed (length options - 1) ''NVDA_DUAL'' of
               None \<Rightarrow> Inl KeyError
             | Some stock_dual_position \<Rightarrow>
                 Inr (fadd (fadd (foldl (\<lambda>a p. fadd a (float_of_int p)) acc future_positions)
                              (float_of_int stock_position))
                        (float_of_int stock_dual_position),
                      stock_position)))))"
    if ne: "options \<noteq> []"
  proof (cases "options_loop ext positions_feed stock_value options 0 0 None")
    case (Inl e)
    then show ?thesis by (simp add: nvda_aggregate_def)
  next
    case (Inr r)
    obtain acc bound where r: "r = (acc, bound)" by (cases r)
    have bound: "bound = Some (positions_feed (length options - 1))"
      using options_loop_bound [of ext positions_feed stock_value options 0 0 None acc bound]
        Inr r ne by simp
    show ?thesis
      unfolding nvda_aggregate_def Inr r bound
      by (simp add: futures_loop_reads split: option.splits)
  qed
  have raised: "hedge_delta_position ext positions_feed book_feed ''NVDA'' options futures
            stock_value = Some (Inl e)"
    if "nvda_aggregate ext positions_feed ''NVDA'' options futures stock_value = Inl e"
    using that by (simp add: hedge_delta_position_def)
  from unbound reads raised show ?thesis by blast
qed

section \<open>Instances of the hedge\<close>

text \<open>
  C2, as the claim has it, fails: with a first book that is empty and a second that is not,
  the call places its order; with books that stay empty it does not return.
\<close>

theorem hedge_delta_position_waits_counterexample:
  "hedge_delta_position sample_externals (\<lambda>n. [''SAN'' \<mapsto> 5, ''SAN_DUAL'' \<mapsto> 0])
     (\<lambda>n. if n = 0 then Some \<lparr>bids = [], asks = []\<rparr>
          else Some \<lparr>bids = [\<lparr>price = 10, volume = 50\<rparr>],
                     asks = [\<lparr>price = 11, volume = 50\<rparr>]\<rparr>)
     ''SAN'' [] [] 10
   = Some (Inr [Insert_order ''SAN'' 10 5 ''ask'' ''ioc''])
   \<and> hedge_delta_position sample_externals (\<lambda>n. [''SAN'' \<mapsto> 5, ''SAN_DUAL'' \<mapsto> 0])
       (\<lambda>n. Some \<lparr>bids = [], asks = []\<rparr>) ''SAN'' [] [] 10
     = None"
proof -
  let ?book = "\<lparr>bids = [\<lparr>price = 10, volume = 50\<rparr>], asks = [\<lparr>price = 11, volume = 50\<rparr>]\<rparr>"
  let ?feed = "\<lambda>n::nat. if n = 0 then Some \<lparr>bids = [], asks = []\<rparr> else Some ?book"
  have "wait_for_book ?feed 0 = wait_for_book ?feed (Suc 0)"
    by (rule wait_for_book_step [of _ _ "\<lparr>bids = [], asks = []\<rparr>"]) simp_all
  also have "\<dots> = Some (Inr ?book)"
    by (rule wait_for_book_found) simp_all
  finally have a: "wait_for_book ?feed 0 = Some (Inr ?book)" .
  have b: "wait_for_book (\<lambda>n. Some \<lparr>bids = [], asks = []\<rparr>) 0 = None"
    by (rule wait_for_book_never) simp
  show ?thesis
    unfolding hedge_delta_position_def Let_def a b
    by (simp add: hedge_order_def py_round_def)
qed


theorem hedge_delta_position_thresholds_witness:
  "wait_for_book (\<lambda>n. Some full_book) 0 = Some (Inr full_book)
   \<and> hedge_delta_position sample_externals
         (\<lambda>n. [''NVDA_C'' \<mapsto> 80, ''NVDA'' \<mapsto> 0, ''NVDA_DUAL'' \<mapsto> 0])
         (\<lambda>n. Some full_book) ''NVDA'' [(''NVDA_C'', nvda_call)] [] 100
       = Some (Inr [Insert_order ''NVDA'' 100 40 ''ask'' ''ioc''])
   \<and> hedge_delta_position sample_externals
         (\<lambda>n. [''NVDA_C'' \<mapsto> 20, ''NVDA'' \<mapsto> 0, ''NVDA_DUAL'' \<mapsto> 0])
         (\<lambda>n. Some full_book) ''NVDA'' [(''NVDA_C'', nvda_call)] [] 100
       = Some (Inr [])
   \<and> hedge_delta_position sample_externals
         (\<lambda>n. [''SAN'' \<mapsto> - 3, ''SAN_DUAL'' \<mapsto> 0])
         (\<lambda>n. Some full_book) ''SAN'' [] [] 100
       = Some (Inr [Insert_order ''SAN'' 101 3 ''bid'' ''ioc''])"
proof -
  have w: "wait_for_book (\<lambda>n. Some full_book) 0 = Some (Inr full_book)"
    by (rule wait_for_book_found) (simp_all add: full_book_def)
  have a1: "nvda_aggregate sample_externals
         (\<lambda>n. [''NVDA_C'' \<mapsto> 80, ''NVDA'' \<mapsto> 0, ''NVDA_DUAL'' \<mapsto> 0]) ''NVDA''
         [(''NVDA_C'', nvda_call)] [] 100 = Inr (40, 0)"
    by code_simp
  have a2: "nvda_aggregate sample_externals
         (\<lambda>n. [''NVDA_C'' \<mapsto> 20, ''NVDA'' \<mapsto> 0, ''NVDA_DUAL'' \<mapsto> 0]) ''NVDA''
         [(''NVDA_C'', nvda_call)] [] 100 = Inr (10, 0)"
    by code_simp
  note t1 = hedge_delta_position_thresholds [OF w, of sample_externals
      "\<lambda>n. [''NVDA_C'' \<mapsto> 80, ''NVDA'' \<mapsto> 0, ''NVDA_DUAL'' \<mapsto> 0]"
      "[(''NVDA_C'', nvda_call)]" "[]" 100 40 0]
  note t2 = hedge_delta_position_thresholds [OF w, of sample_externals
      "\<lambda>n. [''NVDA_C'' \<mapsto> 20, ''NVDA'' \<mapsto> 0, ''NVDA_DUAL'' \<mapsto> 0]"
      "[(''NVDA_C'', nvda_call)]" "[]" 100 10 0]
  note t3 = hedge_delta_position_thresholds [OF w, of sample_externals
      "\<lambda>n. [''SAN'' \<mapsto> - 3, ''SAN_DUAL'' \<mapsto> 0]" "[]" "[]" 100 0 0 "- 3" 0]
  have r: "py_round \<bar>40\<bar> = 40" "py_round \<bar>10\<bar> = 10"
    by (simp_all add: py_round_def)
  from t1 t2 t3 a1 a2 w r show ?thesis
    by (simp add: full_book_def)
qed

theorem hedge_delta_position_polls_until_two_sided_witness:
  "hedge_delta_position sample_externals
       (\<lambda>n. [''NVDA_C'' \<mapsto> 80, ''NVDA'' \<mapsto> 0, ''NVDA_DUAL'' \<mapsto> 0])
       (\<lambda>n. if n < 3 then Some empty_book else Some full_book)
       ''NVDA'' [(''NVDA_C'', nvda_call)] [] 100
     = hedge_delta_position sample_externals
         (\<lambda>n. [''NVDA_C'' \<mapsto> 80, ''NVDA'' \<mapsto> 0, ''NVDA_DUAL'' \<mapsto> 0])
         (\<lambda>n. Some full_book) ''NVDA'' [(''NVDA_C'', nvda_call)] [] 100
   \<and> hedge_delta_position sample_externals
       (\<lambda>n. [''NVDA_C'' \<mapsto> 80, ''NVDA'' \<mapsto> 0, ''NVDA_DUAL'' \<mapsto> 0])
       (\<lambda>n. Some empty_book) ''NVDA'' [(''NVDA_C'', nvda_call)] [] 100
     = None"
proof -
  have a1: "nvda_aggregate sample_externals
         (\<lambda>n. [''NVDA_C'' \<mapsto> 80, ''NVDA'' \<mapsto> 0, ''NVDA_DUAL'' \<mapsto> 0]) ''NVDA''
         [(''NVDA_C'', nvda_call)] [] 100 = Inr (40, 0)"
    by code_simp
  note t1 = hedge_delta_position_polls_until_two_sided
      [of 3 "\<lambda>n. if n < 3 then Some empty_book else Some full_book" full_book
          sample_externals "\<lambda>n. [''NVDA_C'' \<mapsto> 80, ''NVDA'' \<mapsto> 0, ''NVDA_DUAL'' \<mapsto> 0]"
          "''NVDA''" "[(''NVDA_C'', nvda_call)]" "[]" 100]
  note t2 = hedge_delta_position_polls_until_two_sided
      [of 0 "\<lambda>n. Some empty_book" full_book
          sample_externals "\<lambda>n. [''NVDA_C'' \<mapsto> 80, ''NVDA'' \<mapsto> 0, ''NVDA_DUAL'' \<mapsto> 0]"
          "''NVDA''" "[(''NVDA_C'', nvda_call)]" "[]" 100]
  from t1 t2 a1 show ?thesis
    by (simp add: full_book_def empty_book_def)
qed

theorem hedge_delta_position_positions_snapshot_witness:
  "hedge_delta_position sample_externals (\<lambda>n. late_positions) (\<lambda>n. Some full_book) ''NVDA''
       [] [(''NVDA_F'', nvda_future)] 100
     = Some (Inl UnboundLocalError)
   \<and> nvda_aggregate sample_externals (\<lambda>n. if n = 0 then early_positions else late_positions)
       ''NVDA'' [(''NVDA_C'', nvda_call), (''NVDA_P'', nvda_put)] [(''NVDA_F'', nvda_future)] 100
     = Inr (102, 2)
   \<and> hedge_delta_position sample_externals (\<lambda>n. [''NVDA_C'' \<mapsto> 80, ''NVDA'' \<mapsto> 0])
       (\<lambda>n. Some full_book) ''NVDA'' [(''NVDA_C'', nvda_call)] [] 100
     = Some (Inl KeyError)"
proof -
  have a: "nvda_aggregate sample_externals
       (\<lambda>n. if n = 0 then early_positions else late_positions)
       ''NVDA'' [(''NVDA_C'', nvda_call), (''NVDA_P'', nvda_put)] [(''NVDA_F'', nvda_future)] 100
     = Inr (102, 2)"
    by code_simp
  have b: "nvda_aggregate sample_externals (\<lambda>n. [''NVDA_C'' \<mapsto> 80, ''NVDA'' \<mapsto> 0]) ''NVDA''
       [(''NVDA_C'', nvda_call)] [] 100 = Inl KeyError"
    by code_simp
  note t1 = hedge_delta_position_positions_snapshot
      [where ext = sample_externals and positions_feed = "\<lambda>n. late_positions"
         and book_feed = "\<lambda>n. Some full_book" and futures = "[(''NVDA_F'', nvda_future)]"
         and stock_value = 100 and options = "[]" and stock_id = "''NVDA''" and e = KeyError]
  note t2 = hedge_delta_position_positions_snapshot
      [where ext = sample_externals
         and positions_feed = "\<lambda>n. [''NVDA_C'' \<mapsto> 80, ''NVDA'' \<mapsto> 0]"
         and book_feed = "\<lambda>n. Some full_book" and futures = "[]"
         and stock_value = 100 and options = "[(''NVDA_C'', nvda_call)]"
         and stock_id = "''NVDA''" and e = KeyError]
  from t1 have c: "hedge_delta_position sample_externals (\<lambda>n. late_positions)
       (\<lambda>n. Some full_book) ''NVDA'' [] [(''NVDA_F'', nvda_future)] 100
     = Some (Inl UnboundLocalError)" by (rule conjunct1)
  from t2 b have d: "hedge_delta_position sample_externals
       (\<lambda>n. [''NVDA_C'' \<mapsto> 80, ''NVDA'' \<mapsto> 0])
       (\<lambda>n. Some full_book) ''NVDA'' [(''NVDA_C'', nvda_call)] [] 100
     = Some (Inl KeyError)" by blast
  from a c d show ?thesis by simp
qed

section \<open>Properties of the deviation estimate\<close>

text \<open>
  Once \<open>minimum\<close> is negative the loop keeps its match. When the underlying trades are in
  chronological order this does no harm, since every later trade is further away: then the
  loop finds the match of the specification.
\<close>

lemma match_underlying_negative:
  "m < 0 \<Longrightarrow> match_underlying ts us (Some (m, p)) = Some (m, p)"
  by (induction us) auto

lemma scan_abs_least:
  "\<forall>v\<in>set us. m \<le> \<bar>ts - timestamp v\<bar> \<Longrightarrow> scan_abs ts us (Some (m, p)) = Some (m, p)"
  by (induction us) auto

lemma match_underlying_scan_abs:
  "sorted (map timestamp us) \<Longrightarrow> 0 \<le> m
   \<Longrightarrow> map_option snd (match_underlying ts us (Some (m, p)))
     = map_option snd (scan_abs ts us (Some (m, p)))"
proof (induction us arbitrary: m p)
  case Nil
  then show ?case by simp
next
  case (Cons u us)
  have s: "sorted (map timestamp us)" using Cons.prems(1) by simp
  show ?case
  proof (cases "\<bar>ts - timestamp u\<bar> < m")
    case False
    then show ?thesis using Cons.IH [OF s Cons.prems(2)] by simp
  next
    case True
    show ?thesis
    proof (cases "0 \<le> ts - timestamp u")
      case nonneg: True
      then have "\<bar>ts - timestamp u\<bar> = ts - timestamp u" by simp
      then show ?thesis using True Cons.IH [OF s nonneg, of "price u"] by simp
    next
      case neg: False
      then have a: "match_underlying ts (u # us) (Some (m, p))
                    = Some (ts - timestamp u, price u)"
        using True by (simp add: match_underlying_negative)
      have "\<forall>v\<in>set us. \<bar>ts - timestamp u\<bar> \<le> \<bar>ts - timestamp v\<bar>"
        using Cons.prems(1) neg by auto
      then have b: "scan_abs ts (u # us) (Some (m, p))
                    = Some (\<bar>ts - timestamp u\<bar>, price u)"
        using True by (simp add: scan_abs_least)
      show ?thesis unfolding a b by simp
    qed
  qed
qed

lemma find_stronger:
  "List.find Q xs = Some b \<Longrightarrow> (\<And>x. x \<in> set xs \<Longrightarrow> R x \<Longrightarrow> Q x) \<Longrightarrow> R b
   \<Longrightarrow> List.find R xs = Some b"
  by (induction xs) (auto split: if_splits)

lemma find_app:
  "List.find R (xs @ ys) = (case List.find R xs of None \<Rightarrow> List.find R ys | Some x \<Rightarrow> Some x)"
  by (induction xs) auto

lemma find_none: "(\<And>x. x \<in> set xs \<Longrightarrow> \<not> R x) \<Longrightarrow> List.find R xs = None"
  by (induction xs) auto

lemma scan_abs_first_nearest:
  "List.find (nearest_in ts pre) pre = Some b
   \<Longrightarrow> map_option snd (scan_abs ts us (Some (\<bar>ts - timestamp b\<bar>, price b)))
     = map_option price (List.find (nearest_in ts (pre @ us)) (pre @ us))"
proof (induction us arbitrary: pre b)
  case Nil
  then show ?case by simp
next
  case (Cons v us)
  have bn: "nearest_in ts pre b" and bi: "b \<in> set pre"
    using Cons.prems by (auto simp: find_Some_iff)
  show ?case
  proof (cases "\<bar>ts - timestamp v\<bar> < \<bar>ts - timestamp b\<bar>")
    case True
    have "List.find (nearest_in ts (pre @ [v])) pre = None"
    proof (rule find_none)
      fix x assume "x \<in> set pre"
      then have "\<bar>ts - timestamp b\<bar> \<le> \<bar>ts - timestamp x\<bar>"
        using bn by (simp add: nearest_in_def list_all_iff)
      with True show "\<not> nearest_in ts (pre @ [v]) x"
        by (simp add: nearest_in_def)
    qed
    moreover have "nearest_in ts (pre @ [v]) v"
      using bn True by (auto simp: nearest_in_def list_all_iff)
    ultimately have "List.find (nearest_in ts (pre @ [v])) (pre @ [v]) = Some v"
      by (simp add: find_app)
    from Cons.IH [OF this] True show ?thesis by simp
  next
    case False
    have "List.find (nearest_in ts (pre @ [v])) pre = Some b"
      using Cons.prems
    proof (rule find_stronger)
      fix x assume "x \<in> set pre" "nearest_in ts (pre @ [v]) x"
      then show "nearest_in ts pre x" by (simp add: nearest_in_def)
    next
      show "nearest_in ts (pre @ [v]) b" using bn False by (simp add: nearest_in_def)
    qed
    then have "List.find (nearest_in ts (pre @ [v])) (pre @ [v]) = Some b"
      by (simp add: find_app)
    from Cons.IH [OF this] False show ?thesis by simp
  qed
qed

lemma scan_abs_spec:
  "map_option snd (scan_abs ts us None) = map_option price (spec_nearest_trade ts us)"
proof (cases us)
  case Nil
  then show ?thesis by (simp add: spec_nearest_trade_def)
next
  case (Cons u us')
  have "List.find (nearest_in ts [u]) [u] = Some u" by (simp add: nearest_in_def)
  from scan_abs_first_nearest [OF this, of us'] show ?thesis
    unfolding Cons spec_nearest_trade_def nearest_in_def [abs_def] by simp
qed

lemma match_underlying_chronological:
  assumes "sorted (map timestamp data_underlying)"
  shows "map_option snd (match_underlying timestamp_instrument data_underlying None)
         = map_option price (spec_nearest_trade timestamp_instrument data_underlying)"
proof (cases data_underlying)
  case Nil
  then show ?thesis by (simp add: spec_nearest_trade_def)
next
  case (Cons u us)
  have "map_option snd (match_underlying timestamp_instrument data_underlying None)
        = map_option snd (scan_abs timestamp_instrument data_underlying None)"
    unfolding Cons using assms match_underlying_scan_abs [of us "\<bar>timestamp_instrument - timestamp u\<bar>"]
    by (simp add: Cons)
  then show ?thesis by (simp add: scan_abs_spec)
qed

lemma tick_loop_spec_deviation_sum:
  assumes "sorted (map timestamp data_underlying)"
  shows "map_sum id (\<lambda>(a, b, d). d)
           (tick_loop ext instr data_underlying data_instrument tav tbv acc)
         = spec_deviation_sum ext instr data_underlying data_instrument acc"
proof (induction data_instrument arbitrary: tav tbv acc)
  case Nil
  then show ?case by simp
next
  case (Cons line rest)
  note m = match_underlying_chronological [OF assms, of "timestamp line"]
  show ?case
  proof (cases "match_underlying (timestamp line) data_underlying None")
    case None
    with m have "spec_nearest_trade (timestamp line) data_underlying = None" by simp
    with None show ?thesis by (simp add: Let_def)
  next
    case (Some st)
    obtain mi pr where st: "st = (mi, pr)" by (cases st)
    from m Some st obtain u where
      u: "spec_nearest_trade (timestamp line) data_underlying = Some u" "price u = pr"
      by (cases "spec_nearest_trade (timestamp line) data_underlying") auto
    show ?thesis
      using Some st u Cons.IH by (simp add: Let_def split: sum.splits)
  qed
qed

text \<open>
  C1. With the histories in chronological order, as the exchange returns them: for every
  trade of the instrument, the underlying trade whose price \<open>get_quantified_data\<close> uses is
  the first one at the smallest absolute difference of timestamps, and the squared
  deviation of the instrument's price from the theoretical value at that price is
  accumulated for every such trade; the mean squared deviation returned is that sum
  divided by the number of trades.
\<close>

theorem get_quantified_data_nearest_match:
  assumes chrono: "\<And>iid. sorted (map timestamp (get_trade_tick_history iid))"
  shows
    "map_option snd (match_underlying ts (get_trade_tick_history iid) None)
       = map_option price (spec_nearest_trade ts (get_trade_tick_history iid))
     \<and> map_sum id (\<lambda>(a, b, d). d)
           (tick_loop ext instr (get_trade_tick_history iid) data_instrument tav tbv acc)
       = spec_deviation_sum ext instr (get_trade_tick_history iid) data_instrument acc
     \<and> (get_quantified_data ext all_instruments get_trade_tick_history underlying instr0
          = Inr (average_squared_deviation, average_volume_ask, average_volume_bid)
        \<longrightarrow> (\<exists>instr' total.
              (if instrument_type instr0 = STOCK
               then all_instruments (if underlying = ''NVDA'' then ''NVDA_DUAL''
                                     else ''SAN_DUAL'') = Some instr'
               else instr' = instr0)
            \<and> spec_deviation_sum ext instr'
                  (get_trade_tick_history
                     (if instrument_type instr0 = STOCK
                      then (if underlying = ''NVDA'' then ''NVDA'' else ''SAN'')
                      else underlying))
                  (get_trade_tick_history (instrument_id instr')) 0
                = Inr total
            \<and> fdiv total
                  (float_of_int (int (length (get_trade_tick_history (instrument_id instr')))))
                = Inr average_squared_deviation))"
proof -
  have a: "map_option snd (match_underlying ts (get_trade_tick_history iid) None)
       = map_option price (spec_nearest_trade ts (get_trade_tick_history iid))"
    by (rule match_underlying_chronological [OF chrono])
  have b: "map_sum id (\<lambda>(a, b, d). d) (tick_loop ext i (get_trade_tick_history j) di x y z)
       = spec_deviation_sum ext i (get_trade_tick_history j) di z" for i j di x y z
    by (rule tick_loop_spec_deviation_sum [OF chrono])
  have c: "\<exists>instr' total.
              (if instrument_type instr0 = STOCK
               then all_instruments (if underlying = ''NVDA'' then ''NVDA_DUAL''
                                     else ''SAN_DUAL'') = Some instr'
               else instr' = instr0)
            \<and> spec_deviation_sum ext instr'
                  (get_trade_tick_history
                     (if instrument_type instr0 = STOCK
                      then (if underlying = ''NVDA'' then ''NVDA'' else ''SAN'')
                      else underlying))
                  (get_trade_tick_history (instrument_id instr')) 0
                = Inr total
            \<and> fdiv total
                  (float_of_int (int (length (get_trade_tick_history (instrument_id instr')))))
                = Inr average_squared_deviation"
    if g: "get_quantified_data ext all_instruments get_trade_tick_history underlying instr0
          = Inr (average_squared_deviation, average_volume_ask, average_volume_bid)"
  proof -
    define uid where "uid = (if instrument_type instr0 = STOCK
                      then (if underlying = ''NVDA'' then ''NVDA'' else ''SAN'')
                      else underlying)"
    from g obtain instr' where
      r: "if instrument_type instr0 = STOCK
               then all_instruments (if underlying = ''NVDA'' then ''NVDA_DUAL''
                                     else ''SAN_DUAL'') = Some instr'
               else instr' = instr0"
      by (auto simp: get_quantified_data_def split: if_splits option.splits)
    from g r obtain ta tb total where
      t: "tick_loop ext instr' (get_trade_tick_history uid)
            (get_trade_tick_history (instrument_id instr')) 0 0 0 = Inr (ta, tb, total)"
      and d: "fdiv total
                (float_of_int (int (length (get_trade_tick_history (instrument_id instr')))))
              = Inr average_squared_deviation"
      unfolding uid_def
      by (auto simp: get_quantified_data_def split: if_splits option.splits sum.splits)
    from b [of instr' uid "get_trade_tick_history (instrument_id instr')" 0 0 0] t
    have "spec_deviation_sum ext instr' (get_trade_tick_history uid)
            (get_trade_tick_history (instrument_id instr')) 0 = Inr total"
      by simp
    with r d show ?thesis unfolding uid_def by blast
  qed
  from a b c show ?thesis by blast
qed


theorem get_quantified_data_nearest_match_witness:
  "sorted (map timestamp (chronological_history ''NVDA''))
   \<and> match_underlying 10 (chronological_history ''NVDA'') None = Some (1, 3)
   \<and> map_option price (spec_nearest_trade 10 (chronological_history ''NVDA'')) = Some 3
   \<and> spec_deviation_sum sample_externals nvda_dual (chronological_history ''NVDA'')
         (chronological_history ''NVDA_DUAL'') 0 = Inr 13
   \<and> get_quantified_data sample_externals [''NVDA_DUAL'' \<mapsto> nvda_dual]
         chronological_history ''NVDA'' nvda_dual
       = Inr (13 / 2, 3 / 2, 7 / 2)"
proof -
  have s: "sorted (map timestamp (chronological_history iid))" for iid
    by (simp add: chronological_history_def)
  have e: "match_underlying 10 (chronological_history ''NVDA'') None = Some (1, 3)"
      "get_quantified_data sample_externals [''NVDA_DUAL'' \<mapsto> nvda_dual]
         chronological_history ''NVDA'' nvda_dual
       = Inr (13 / 2, 3 / 2, 7 / 2)"
      "spec_deviation_sum sample_externals nvda_dual (chronological_history ''NVDA'')
         (chronological_history ''NVDA_DUAL'') 0 = Inr 13"
    by code_simp+
  note t = get_quantified_data_nearest_match [of chronological_history 10 "''NVDA''"
      sample_externals nvda_dual "chronological_history ''NVDA_DUAL''" 0 0 0
      "[''NVDA_DUAL'' \<mapsto> nvda_dual]" "''NVDA''" nvda_dual "13 / 2" "3 / 2" "7 / 2", OF s]
  from t e s [of "''NVDA''"] show ?thesis by simp
qed

text \<open>
  The order matters. The loop stores a signed difference when it moves to a nearer trade,
  so that after a move to a trade later than the instrument's no trade replaces the match.
  In a history with the newest trade first (times 13, 12, 11 for an instrument trade at
  time 10) the loop keeps the trade at time 12 where the nearest is the trade at time 11.
\<close>

lemma match_underlying_newest_first:
  "map_option price (spec_nearest_trade 10 newest_first) = Some 3
   \<and> match_underlying 10 newest_first None = Some (- 2, 2)
   \<and> get_quantified_data sample_externals [''NVDA_DUAL'' \<mapsto> nvda_dual] sample_history
         ''NVDA'' nvda_dual
       = Inr (9, 0, 7)"
  by code_simp

text \<open>
  C4, as the claim has it, fails: with an empty history of the instrument the division is
  reached and raises \<open>ZeroDivisionError\<close>.
\<close>

theorem get_quantified_data_empty_counterexample:
  "get_quantified_data sample_externals Map.empty sample_history ''NVDA'' nvda_call
     = Inl ZeroDivisionError"
  by code_simp

text \<open>
  C4, as the program has it. When the history of the instrument whose trades are read (the
  dual listing, for a stock) is empty, \<open>get_quantified_data\<close> reaches the first of its
  divisions by the length of the history and fails with \<open>ZeroDivisionError\<close>.
\<close>

theorem get_quantified_data_empty_history:
  "(instrument_type instr \<noteq> STOCK \<and> get_trade_tick_history (instrument_id instr) = []
    \<longrightarrow> get_quantified_data ext all_instruments get_trade_tick_history underlying instr
        = Inl ZeroDivisionError)
   \<and> (instrument_type instr = STOCK
      \<and> all_instruments (if underlying = ''NVDA'' then ''NVDA_DUAL'' else ''SAN_DUAL'')
          = Some dual
      \<and> get_trade_tick_history (instrument_id dual) = []
    \<longrightarrow> get_quantified_data ext all_instruments get_trade_tick_history underlying instr
        = Inl ZeroDivisionError)"
  by (simp add: get_quantified_data_def fdiv_def float_of_int_def binary64_def)

theorem get_quantified_data_empty_history_witness:
  "instrument_type nvda_future \<noteq> STOCK
   \<and> sample_history (instrument_id nvda_future) = []
   \<and> get_quantified_data sample_externals Map.empty sample_history ''NVDA'' nvda_future
       = Inl ZeroDivisionError"
  using get_quantified_data_empty_history
          [of nvda_future sample_history sample_externals Map.empty "''NVDA''"]
  by (simp add: nvda_future_def sample_history_def)

section \<open>Properties of the credit\<close>

lemma tick_value: "binary64 (1 / 10) = 3602879701896397 / 36028797018963968"
  by code_simp

text \<open>
  C8, as the program has it. For a root \<open>rt \<ge> 0\<close> the credit is the float nearest to
  \<open>\<lfloor>rt / t\<rfloor> * t\<close>, where \<open>t\<close> is the float of the literal \<open>0.1\<close> and the quotient is exact:
  the largest multiple of \<open>t\<close> that is at most \<open>rt\<close>, rounded. \<open>round_down_to_tick\<close> takes
  the floor of the rounded quotient instead, and the two differ where the rounding of the
  quotient reaches the next integer.
\<close>

theorem optimal_credit_floor:
  assumes "0 \<le> rt"
  shows "optimal_credit rt
         = Inr (binary64 (of_int \<lfloor>rt / binary64 (1 / 10)\<rfloor> * binary64 (1 / 10)))"
proof -
  let ?t = "binary64 (1 / 10)"
  have t: "0 < ?t" unfolding tick_value by simp
  then have q: "0 \<le> rt / ?t" using assms by simp
  have le: "of_int \<lfloor>rt / ?t\<rfloor> * ?t \<le> rt"
    using of_int_floor_le [of "rt / ?t"] unfolding pos_le_divide_eq [OF t] .
  have m: "c_fmod rt ?t = rt - of_int \<lfloor>rt / ?t\<rfloor> * ?t"
    using q by (simp add: c_fmod_def)
  have "fmod rt ?t = Inr (rt - of_int \<lfloor>rt / ?t\<rfloor> * ?t)"
    unfolding fmod_def Let_def m using t le by auto
  then show ?thesis
    by (simp add: optimal_credit_def fsub_def)
qed

text \<open>
  C8, as the claim has it, fails: for a mean squared deviation of 1.0, whose root is 1.0,
  the credit is the float 0.9 and \<open>round_down_to_tick(1.0, 0.1)\<close> is 1.0.
\<close>

theorem optimal_credit_counterexample:
  "optimal_credit 1 = Inr (8106479329266893 / 9007199254740992)
   \<and> round_down_to_tick 1 (binary64 (1 / 10)) = Inr 1"
  by code_simp

theorem optimal_credit_floor_witness:
  "(0::rat) \<le> 1
   \<and> optimal_credit 1 = Inr (binary64 (9 * (3602879701896397 / 36028797018963968)))"
proof -
  have f: "\<lfloor>(1::rat) / binary64 (1 / 10)\<rfloor> = 9"
    unfolding tick_value by (rule floor_unique) simp_all
  from optimal_credit_floor [of 1] f show ?thesis by (simp add: tick_value)
qed

end
